theory Spec2Isabelle
  imports Main
begin

section \<open>Values shared by both resources\<close>

text \<open>
  The repository is two Express routers (\<^verbatim>\<open>routes/users.js\<close> and the router of the
  analysis resource) over two Mongoose models (\<^verbatim>\<open>models/User.js\<close>,
  \<^verbatim>\<open>models/Analisis.js\<close>). A collection is the list of its documents in insertion
  order; a handler takes the collection and the request and returns the response together
  with the collection after the request.

  Scope of the model. Request bodies carry the fields the schemas declare, each absent or
  present with a value of the declared type (no \<^verbatim>\<open>null\<close>, no value that Mongoose would
  have to cast, no \<^verbatim>\<open>_id\<close> or \<^verbatim>\<open>__v\<close> supplied by the client), its keys in the
  order in which the schema declares the paths. Strings are lists of
  8-bit characters. A date is its number of milliseconds since the epoch. Faults of the
  environment (a lost connection) are not produced by the model of the store, but every
  handler's \<^verbatim>\<open>catch\<close> is modelled on an arbitrary error object, so what a handler answers
  to such a fault is part of the model.
\<close>

type_synonym date = nat

type_synonym oid = nat

text \<open>
  The \<^verbatim>\<open>:id\<close> segment of the path is a string. Mongoose casts it to an ObjectId when it
  builds the query on \<^verbatim>\<open>_id\<close>; a string that is not the hexadecimal form of an ObjectId makes
  the query reject with a \<^verbatim>\<open>CastError\<close>. The segment is modelled by the outcome of that cast.
\<close>

datatype id_param = IdOf oid | NotAnId string

text \<open>
  A JavaScript error object, as far as the handlers read it: \<^verbatim>\<open>error.name\<close>,
  \<^verbatim>\<open>error.code\<close> (absent on Mongoose's own errors), \<^verbatim>\<open>error.errors\<close> (path and
  message of each failed path, empty when absent) and \<^verbatim>\<open>error.message\<close>.
\<close>

record js_error =
  err_name :: string
  err_code :: "nat option"
  err_errors :: "(string \<times> string) list"
  err_message :: string

fun intercalate :: "string \<Rightarrow> string list \<Rightarrow> string" where
  "intercalate sep [] = []"
| "intercalate sep [x] = x"
| "intercalate sep (x # y # ys) = x @ sep @ intercalate sep (y # ys)"

definition describe_errors :: "(string \<times> string) list \<Rightarrow> string" where
  "describe_errors es = intercalate '', '' (map (\<lambda>(p, m). p @ '': '' @ m) es)"

text \<open>The error of a failed document validation (\<^verbatim>\<open>save\<close>) of model \<open>model\<close>.\<close>

definition DocumentValidationError :: "string \<Rightarrow> (string \<times> string) list \<Rightarrow> js_error" where
  "DocumentValidationError model es =
     \<lparr>err_name = ''ValidationError'', err_code = None, err_errors = es,
      err_message = model @ '' validation failed: '' @ describe_errors es\<rparr>"

text \<open>The error of failed update validators (\<^verbatim>\<open>runValidators: true\<close>).\<close>

definition UpdateValidationError :: "(string \<times> string) list \<Rightarrow> js_error" where
  "UpdateValidationError es =
     \<lparr>err_name = ''ValidationError'', err_code = None, err_errors = es,
      err_message = ''Validation failed: '' @ describe_errors es\<rparr>"

text \<open>
  The server's error for a write that violates the unique index on \<open>field\<close>. Its message
  is the server's without the names of the database and of the collection.
\<close>

definition DuplicateKeyError :: "string \<Rightarrow> string \<Rightarrow> js_error" where
  "DuplicateKeyError field v =
     \<lparr>err_name = ''MongoServerError'', err_code = Some 11000, err_errors = [],
      err_message = ''E11000 duplicate key error index: '' @ field @ ''_1 dup key: { '' @ field
        @ '': \"'' @ v @ ''\" }''\<rparr>"

text \<open>The error of a failed cast of the \<^verbatim>\<open>:id\<close> segment.\<close>

definition ObjectIdCastError :: "string \<Rightarrow> string \<Rightarrow> js_error" where
  "ObjectIdCastError model s =
     \<lparr>err_name = ''CastError'', err_code = None, err_errors = [],
      err_message = ''Cast to ObjectId failed for value \"'' @ s
        @ ''\" (type string) at path \"_id\" for model \"'' @ model @ ''\"''\<rparr>"

text \<open>
  \<^verbatim>\<open>new ObjectId()\<close>: the driver generates an identifier that no stored document has.
  The model takes the successor of the largest identifier in the collection.
\<close>

definition newObjectId :: "oid list \<Rightarrow> oid" where
  "newObjectId ids = Suc (fold max ids 0)"

subsection \<open>String setters and the regular expression of the email validator\<close>

definition isSpace :: "char \<Rightarrow> bool" where
  "isSpace c = (of_char c \<in> {9::nat, 10, 11, 12, 13, 32, 160})"

text \<open>\<^verbatim>\<open>String.prototype.trim\<close>.\<close>

definition trim :: "string \<Rightarrow> string" where
  "trim s = rev (dropWhile isSpace (rev (dropWhile isSpace s)))"

definition lowerChar :: "char \<Rightarrow> char" where
  "lowerChar c =
     (let n = of_char c :: nat
      in if (65 \<le> n \<and> n \<le> 90) \<or> (192 \<le> n \<and> n \<le> 222 \<and> n \<noteq> 215)
         then char_of (n + 32) else c)"

text \<open>\<^verbatim>\<open>String.prototype.toLowerCase\<close>.\<close>

definition toLowerCase :: "string \<Rightarrow> string" where
  "toLowerCase s = map lowerChar s"

text \<open>The class \<^verbatim>\<open>\w\<close> of a JavaScript regular expression: letters, digits, underscore.\<close>

definition isWord :: "char \<Rightarrow> bool" where
  "isWord c =
     (let n = of_char c :: nat
      in (48 \<le> n \<and> n \<le> 57) \<or> (65 \<le> n \<and> n \<le> 90) \<or> n = 95 \<or> (97 \<le> n \<and> n \<le> 122))"

datatype regexp =
    Never
  | Empty
  | Word
  | OneOf string
  | Then regexp regexp
  | Or regexp regexp
  | Many regexp

fun nullable :: "regexp \<Rightarrow> bool" where
  "nullable Never = False"
| "nullable Empty = True"
| "nullable Word = False"
| "nullable (OneOf cs) = False"
| "nullable (Then r s) = (nullable r \<and> nullable s)"
| "nullable (Or r s) = (nullable r \<or> nullable s)"
| "nullable (Many r) = True"

text \<open>What is left of \<open>r\<close> to match after the character \<open>c\<close>.\<close>

fun after :: "char \<Rightarrow> regexp \<Rightarrow> regexp" where
  "after c Never = Never"
| "after c Empty = Never"
| "after c Word = (if isWord c then Empty else Never)"
| "after c (OneOf cs) = (if c \<in> set cs then Empty else Never)"
| "after c (Then r s) =
     (if nullable r then Or (Then (after c r) s) (after c s) else Then (after c r) s)"
| "after c (Or r s) = Or (after c r) (after c s)"
| "after c (Many r) = Then (after c r) (Many r)"

text \<open>\<^verbatim>\<open>/^r$/.test(s)\<close>: the whole string matches \<open>r\<close>.\<close>

fun test :: "regexp \<Rightarrow> string \<Rightarrow> bool" where
  "test r [] = nullable r"
| "test r (c # cs) = test (after c r) cs"

definition Some1 :: "regexp \<Rightarrow> regexp" where
  "Some1 r = Then r (Many r)"

definition Opt :: "regexp \<Rightarrow> regexp" where
  "Opt r = Or Empty r"

text \<open>\<^verbatim>\<open>\w+([.-]?\w+)*\<close>, the shape of the local part and of the domain.\<close>

definition dotted_words :: regexp where
  "dotted_words = Then (Some1 Word) (Many (Then (Opt (OneOf ''.-'')) (Some1 Word)))"

text \<open>\<^verbatim>\<open>/^\w+([.-]?\w+)*@\w+([.-]?\w+)*(\.\w{2,3})+$/\<close> of \<^verbatim>\<open>models/User.js\<close>.\<close>

definition email_regexp :: regexp where
  "email_regexp =
     Then dotted_words (Then (OneOf ''@'') (Then dotted_words
       (Some1 (Then (OneOf ''.'') (Then Word (Then Word (Opt Word)))))))"

section \<open>The User model (\<^verbatim>\<open>models/User.js\<close>)\<close>

text \<open>
  A user document. \<open>u_id\<close> is \<^verbatim>\<open>_id\<close> and \<open>u_v\<close> is the version key \<^verbatim>\<open>__v\<close>
  (\<open>None\<close> when the key is absent: before the first save, or deselected by
  \<^verbatim>\<open>select('-__v')\<close>). A path without a value is \<open>None\<close>.
\<close>

record user =
  u_id :: oid
  name :: "string option"
  email :: "string option"
  age :: "int option"
  isActive :: bool
  createdAt :: date
  updatedAt :: date
  u_v :: "nat option"

text \<open>The JSON body of a request on the user resource.\<close>

record user_body =
  b_name :: "string option"
  b_email :: "string option"
  b_age :: "int option"
  b_isActive :: "bool option"
  b_createdAt :: "date option"
  b_updatedAt :: "date option"

text \<open>The accented letters of the messages, as single characters.\<close>

definition a_acute :: string where "a_acute = [CHR 0xE1]"
definition o_acute :: string where "o_acute = [CHR 0xF3]"
definition u_acute :: string where "u_acute = [CHR 0xFA]"

text \<open>
  The setters of the schema: \<^verbatim>\<open>trim\<close> on the name, \<^verbatim>\<open>lowercase\<close> and \<^verbatim>\<open>trim\<close>
  on the email.
\<close>

definition set_name :: "string \<Rightarrow> string" where
  "set_name s = trim s"

definition set_email :: "string \<Rightarrow> string" where
  "set_email s = trim (toLowerCase s)"

text \<open>
  The validators of each path, in the order Mongoose runs them (\<^verbatim>\<open>required\<close> first); the
  result is the message of the first validator that fails. \<^verbatim>\<open>required\<close> on a string
  fails on an absent and on an empty value; the other validators pass on an absent value,
  and \<^verbatim>\<open>match\<close> passes on an empty one.
\<close>

definition validate_name :: "string option \<Rightarrow> string option" where
  "validate_name v =
     (case v of
        None \<Rightarrow> Some ''El nombre es obligatorio''
      | Some s \<Rightarrow>
          if s = [] then Some ''El nombre es obligatorio''
          else if 50 < length s
          then Some (''El nombre no puede tener m'' @ a_acute @ ''s de 50 caracteres'')
          else None)"

definition validate_email :: "string option \<Rightarrow> string option" where
  "validate_email v =
     (case v of
        None \<Rightarrow> Some ''El email es obligatorio''
      | Some s \<Rightarrow>
          if s = [] then Some ''El email es obligatorio''
          else if \<not> test email_regexp s
          then Some (''Por favor ingresa un email v'' @ a_acute @ ''lido'')
          else None)"

definition validate_age :: "int option \<Rightarrow> string option" where
  "validate_age v =
     (case v of
        None \<Rightarrow> None
      | Some n \<Rightarrow>
          if n < 0 then Some ''La edad no puede ser negativa''
          else if 120 < n then Some ''La edad no puede ser mayor a 120''
          else None)"

text \<open>The entry of \<^verbatim>\<open>error.errors\<close> for a path, if its validation failed.\<close>

definition path_error :: "string \<Rightarrow> string option \<Rightarrow> (string \<times> string) list" where
  "path_error p r = (case r of None \<Rightarrow> [] | Some m \<Rightarrow> [(p, m)])"

text \<open>
  Document validation, run by \<^verbatim>\<open>save\<close> before the hooks of the schema. Mongoose validates
  first the required paths that have no value, in the reverse of the order of the schema,
  then the paths that the body has set, in the order of its keys; a path filled by its
  default passes. \<^verbatim>\<open>error.errors\<close> has the failed paths in that order.
\<close>

definition if_unset :: "'a option \<Rightarrow> 'b list \<Rightarrow> 'b list" where
  "if_unset v es = (if v = None then es else [])"

definition if_set :: "'a option \<Rightarrow> 'b list \<Rightarrow> 'b list" where
  "if_set v es = (if v = None then [] else es)"

definition User_validate :: "user \<Rightarrow> (string \<times> string) list" where
  "User_validate u =
     if_unset (email u) (path_error ''email'' (validate_email (email u)))
     @ if_unset (name u) (path_error ''name'' (validate_name (name u)))
     @ if_set (name u) (path_error ''name'' (validate_name (name u)))
     @ if_set (email u) (path_error ''email'' (validate_email (email u)))
     @ path_error ''age'' (validate_age (age u))"

text \<open>
  \<^verbatim>\<open>new User(req.body)\<close>: the values of the body through the setters, the defaults of the
  schema for absent paths (\<^verbatim>\<open>Date.now\<close> read as \<open>t\<close>) and a new \<^verbatim>\<open>_id\<close>.
\<close>

definition User_new :: "date \<Rightarrow> oid \<Rightarrow> user_body \<Rightarrow> user" where
  "User_new t i b =
     \<lparr>u_id = i,
      name = map_option set_name (b_name b),
      email = map_option set_email (b_email b),
      age = b_age b,
      isActive = (case b_isActive b of None \<Rightarrow> True | Some a \<Rightarrow> a),
      createdAt = (case b_createdAt b of None \<Rightarrow> t | Some d \<Rightarrow> d),
      updatedAt = (case b_updatedAt b of None \<Rightarrow> t | Some d \<Rightarrow> d),
      u_v = None\<rparr>"

text \<open>\<^verbatim>\<open>userSchema.pre('save', ...)\<close>: \<^verbatim>\<open>this.updatedAt = Date.now()\<close>, read as \<open>t\<close>.\<close>

definition userSchema_pre_save :: "date \<Rightarrow> user \<Rightarrow> user" where
  "userSchema_pre_save t u = u\<lparr>updatedAt := t\<rparr>"

text \<open>\<^verbatim>\<open>userSchema.methods.getPublicProfile\<close>.\<close>

record public_profile =
  p_id :: oid
  p_name :: "string option"
  p_email :: "string option"
  p_age :: "int option"
  p_isActive :: bool
  p_createdAt :: date

definition getPublicProfile :: "user \<Rightarrow> public_profile" where
  "getPublicProfile this =
     \<lparr>p_id = u_id this, p_name = name this, p_email = email this, p_age = age this,
      p_isActive = isActive this, p_createdAt = createdAt this\<rparr>"

text \<open>
  \<^verbatim>\<open>user.save()\<close> of a new document: validation, then the hook, then the insert with the
  version key set to 0. The insert fails on the unique index of \<^verbatim>\<open>email\<close> when a stored
  document has the same email.
\<close>

definition User_save :: "date \<Rightarrow> user list \<Rightarrow> user \<Rightarrow> js_error + (user \<times> user list)" where
  "User_save t db u =
     (case User_validate u of
        e # es \<Rightarrow> Inl (DocumentValidationError ''User'' (e # es))
      | [] \<Rightarrow>
          let doc = (userSchema_pre_save t u)\<lparr>u_v := Some 0\<rparr>
          in if email doc \<in> set (map email db)
             then Inl (DuplicateKeyError ''email'' (case email doc of None \<Rightarrow> [] | Some s \<Rightarrow> s))
             else Inr (doc, db @ [doc]))"

text \<open>\<^verbatim>\<open>.select('-__v')\<close> on a document.\<close>

definition select_no_v :: "user \<Rightarrow> user" where
  "select_no_v u = u\<lparr>u_v := None\<rparr>"

text \<open>\<^verbatim>\<open>User.find({ isActive: true }).select('-__v')\<close>.\<close>

definition User_find_active :: "user list \<Rightarrow> js_error + user list" where
  "User_find_active db = Inr (map select_no_v (filter isActive db))"

text \<open>\<^verbatim>\<open>User.findById(id).select('-__v')\<close>; \<open>None\<close> is JavaScript's \<^verbatim>\<open>null\<close>.\<close>

definition User_findById :: "user list \<Rightarrow> id_param \<Rightarrow> js_error + user option" where
  "User_findById db p =
     (case p of
        NotAnId s \<Rightarrow> Inl (ObjectIdCastError ''User'' s)
      | IdOf i \<Rightarrow> Inr (map_option select_no_v (find (\<lambda>u. u_id u = i) db)))"

text \<open>
  \<^verbatim>\<open>findOneAndUpdate\<close> and \<^verbatim>\<open>findOneAndDelete\<close> act on one document, the first that
  matches.
\<close>

fun update_first :: "('a \<Rightarrow> bool) \<Rightarrow> ('a \<Rightarrow> 'a) \<Rightarrow> 'a list \<Rightarrow> 'a list" where
  "update_first P f [] = []"
| "update_first P f (x # xs) = (if P x then f x # xs else x # update_first P f xs)"

fun remove_first :: "('a \<Rightarrow> bool) \<Rightarrow> 'a list \<Rightarrow> 'a list" where
  "remove_first P [] = []"
| "remove_first P (x # xs) = (if P x then xs else x # remove_first P xs)"

text \<open>
  Update validators (\<^verbatim>\<open>runValidators: true\<close>) run on the paths the update sets and on no
  other, on the value after the setters. Mongoose builds the \<^verbatim>\<open>$set\<close> from the last key
  of the body to the first, and \<^verbatim>\<open>error.errors\<close> has the failed paths in that order.
\<close>

definition User_update_errors :: "user_body \<Rightarrow> (string \<times> string) list" where
  "User_update_errors b =
     path_error ''age'' (validate_age (b_age b))
     @ path_error ''email''
       (case b_email b of None \<Rightarrow> None | Some s \<Rightarrow> validate_email (Some (set_email s)))
     @ path_error ''name''
       (case b_name b of None \<Rightarrow> None | Some s \<Rightarrow> validate_name (Some (set_name s)))"

text \<open>The \<^verbatim>\<open>$set\<close> that Mongoose builds from the body: each path present replaces the value.\<close>

definition User_set :: "user_body \<Rightarrow> user \<Rightarrow> user" where
  "User_set b u =
     u\<lparr>name := (case b_name b of None \<Rightarrow> name u | Some s \<Rightarrow> Some (set_name s)),
       email := (case b_email b of None \<Rightarrow> email u | Some s \<Rightarrow> Some (set_email s)),
       age := (case b_age b of None \<Rightarrow> age u | Some n \<Rightarrow> Some n),
       isActive := (case b_isActive b of None \<Rightarrow> isActive u | Some a \<Rightarrow> a),
       createdAt := (case b_createdAt b of None \<Rightarrow> createdAt u | Some d \<Rightarrow> d),
       updatedAt := (case b_updatedAt b of None \<Rightarrow> updatedAt u | Some d \<Rightarrow> d)\<rparr>"

text \<open>
  \<^verbatim>\<open>User.findByIdAndUpdate(id, update, { new: true, runValidators })\<close>: the cast of the
  identifier, the update validators when asked for, then the write on the matching
  document, which the unique index of \<^verbatim>\<open>email\<close> refuses when the email changes to one
  that a stored document has. The hook of \<^verbatim>\<open>save\<close> is document middleware: a query
  does not run it. The result is the document after the update, or \<^verbatim>\<open>null\<close> when none matches.
\<close>

definition User_findByIdAndUpdate ::
  "bool \<Rightarrow> user list \<Rightarrow> id_param \<Rightarrow> user_body \<Rightarrow> js_error + (user option \<times> user list)" where
  "User_findByIdAndUpdate runValidators db p b =
     (case p of
        NotAnId s \<Rightarrow> Inl (ObjectIdCastError ''User'' s)
      | IdOf i \<Rightarrow>
          (case (if runValidators then User_update_errors b else []) of
             e # es \<Rightarrow> Inl (UpdateValidationError (e # es))
           | [] \<Rightarrow>
               (case find (\<lambda>u. u_id u = i) db of
                  None \<Rightarrow> Inr (None, db)
                | Some u \<Rightarrow>
                    let doc = User_set b u
                    in if email doc \<noteq> email u \<and> email doc \<in> set (map email db)
                       then Inl (DuplicateKeyError ''email''
                                  (case email doc of None \<Rightarrow> [] | Some s \<Rightarrow> s))
                       else Inr (Some doc, update_first (\<lambda>d. u_id d = i) (\<lambda>d. doc) db))))"

text \<open>The update \<^verbatim>\<open>{ isActive: false }\<close> of the soft delete.\<close>

definition no_fields :: user_body where
  "no_fields =
     \<lparr>b_name = None, b_email = None, b_age = None, b_isActive = None, b_createdAt = None,
      b_updatedAt = None\<rparr>"

definition isActive_false :: user_body where
  "isActive_false = no_fields\<lparr>b_isActive := Some False\<rparr>"

section \<open>The Analisis model (\<^verbatim>\<open>models/Analisis.js\<close>)\<close>

record analisis =
  a_id :: oid
  numero_analisis :: "string option"
  fecha_analisis :: date
  tipo_analisis :: "string option"
  laboratorio :: "string option"
  tecnico_responsable :: "string option"
  observaciones :: string
  estado :: string
  a_createdAt :: date
  a_updatedAt :: date
  a_v :: "nat option"

record analisis_body =
  b_numero_analisis :: "string option"
  b_fecha_analisis :: "date option"
  b_tipo_analisis :: "string option"
  b_laboratorio :: "string option"
  b_tecnico_responsable :: "string option"
  b_observaciones :: "string option"
  b_estado :: "string option"
  b_a_createdAt :: "date option"
  b_a_updatedAt :: "date option"

text \<open>The \<^verbatim>\<open>enum\<close> of the path \<^verbatim>\<open>estado\<close>.\<close>

definition estado_enum :: "string list" where
  "estado_enum = [''pendiente'', ''en_proceso'', ''completado'', ''cancelado'']"

text \<open>
  \<^verbatim>\<open>required: true\<close> and \<^verbatim>\<open>enum: [...]\<close> without a message of their own use the
  templates of Mongoose.
\<close>

definition validate_required :: "string \<Rightarrow> string option \<Rightarrow> string option" where
  "validate_required p v =
     (if v = None \<or> v = Some [] then Some (''Path `'' @ p @ ''` is required.'') else None)"

definition enum_message :: "string \<Rightarrow> string" where
  "enum_message v = ''`'' @ v @ ''` is not a valid enum value for path `estado`.''"

definition validate_estado :: "string \<Rightarrow> string option" where
  "validate_estado v = (if v \<in> set estado_enum then None else Some (enum_message v))"

text \<open>
  Document validation, in the order of \<open>User_validate\<close>: the required paths without a value
  from the last of the schema to the first, then the paths that were set; \<^verbatim>\<open>estado\<close> has
  a value in every document, the one of the body or its default.
\<close>

definition required_error :: "string \<Rightarrow> string option \<Rightarrow> (string \<times> string) list" where
  "required_error p v = path_error p (validate_required p v)"

definition Analisis_validate :: "analisis \<Rightarrow> (string \<times> string) list" where
  "Analisis_validate a =
     if_unset (tecnico_responsable a)
       (required_error ''tecnico_responsable'' (tecnico_responsable a))
     @ if_unset (laboratorio a) (required_error ''laboratorio'' (laboratorio a))
     @ if_unset (tipo_analisis a) (required_error ''tipo_analisis'' (tipo_analisis a))
     @ if_unset (numero_analisis a) (required_error ''numero_analisis'' (numero_analisis a))
     @ if_set (numero_analisis a) (required_error ''numero_analisis'' (numero_analisis a))
     @ if_set (tipo_analisis a) (required_error ''tipo_analisis'' (tipo_analisis a))
     @ if_set (laboratorio a) (required_error ''laboratorio'' (laboratorio a))
     @ if_set (tecnico_responsable a)
         (required_error ''tecnico_responsable'' (tecnico_responsable a))
     @ path_error ''estado'' (validate_estado (estado a))"

text \<open>\<^verbatim>\<open>new Analisis(req.body)\<close>, with the defaults of the schema.\<close>

definition Analisis_new :: "date \<Rightarrow> oid \<Rightarrow> analisis_body \<Rightarrow> analisis" where
  "Analisis_new t i b =
     \<lparr>a_id = i,
      numero_analisis = b_numero_analisis b,
      fecha_analisis = (case b_fecha_analisis b of None \<Rightarrow> t | Some d \<Rightarrow> d),
      tipo_analisis = b_tipo_analisis b,
      laboratorio = b_laboratorio b,
      tecnico_responsable = b_tecnico_responsable b,
      observaciones = (case b_observaciones b of None \<Rightarrow> [] | Some s \<Rightarrow> s),
      estado = (case b_estado b of None \<Rightarrow> ''pendiente'' | Some s \<Rightarrow> s),
      a_createdAt = (case b_a_createdAt b of None \<Rightarrow> t | Some d \<Rightarrow> d),
      a_updatedAt = (case b_a_updatedAt b of None \<Rightarrow> t | Some d \<Rightarrow> d),
      a_v = None\<rparr>"

text \<open>\<^verbatim>\<open>analisisSchema.pre('save', ...)\<close>.\<close>

definition analisisSchema_pre_save :: "date \<Rightarrow> analisis \<Rightarrow> analisis" where
  "analisisSchema_pre_save t a = a\<lparr>a_updatedAt := t\<rparr>"

text \<open>
  \<^verbatim>\<open>analisis.save()\<close> of a new document; the unique index is on
  \<^verbatim>\<open>numero_analisis\<close>.
\<close>

definition Analisis_save ::
  "date \<Rightarrow> analisis list \<Rightarrow> analisis \<Rightarrow> js_error + (analisis \<times> analisis list)" where
  "Analisis_save t db a =
     (case Analisis_validate a of
        e # es \<Rightarrow> Inl (DocumentValidationError ''Analisis'' (e # es))
      | [] \<Rightarrow>
          let doc = (analisisSchema_pre_save t a)\<lparr>a_v := Some 0\<rparr>
          in if numero_analisis doc \<in> set (map numero_analisis db)
             then Inl (DuplicateKeyError ''numero_analisis''
                        (case numero_analisis doc of None \<Rightarrow> [] | Some s \<Rightarrow> s))
             else Inr (doc, db @ [doc]))"

definition a_select_no_v :: "analisis \<Rightarrow> analisis" where
  "a_select_no_v a = a\<lparr>a_v := None\<rparr>"

text \<open>\<^verbatim>\<open>Analisis.findById(id).select('-__v')\<close>.\<close>

definition Analisis_findById :: "analisis list \<Rightarrow> id_param \<Rightarrow> js_error + analisis option" where
  "Analisis_findById db p =
     (case p of
        NotAnId s \<Rightarrow> Inl (ObjectIdCastError ''Analisis'' s)
      | IdOf i \<Rightarrow> Inr (map_option a_select_no_v (find (\<lambda>a. a_id a = i) db)))"

text \<open>The update validators, from the last key of the body to the first.\<close>

definition Analisis_update_errors :: "analisis_body \<Rightarrow> (string \<times> string) list" where
  "Analisis_update_errors b =
     path_error ''estado''
       (case b_estado b of None \<Rightarrow> None | Some s \<Rightarrow> validate_estado s)
     @ if_set (b_tecnico_responsable b)
         (required_error ''tecnico_responsable'' (b_tecnico_responsable b))
     @ if_set (b_laboratorio b) (required_error ''laboratorio'' (b_laboratorio b))
     @ if_set (b_tipo_analisis b) (required_error ''tipo_analisis'' (b_tipo_analisis b))
     @ if_set (b_numero_analisis b) (required_error ''numero_analisis'' (b_numero_analisis b))"

definition Analisis_set :: "analisis_body \<Rightarrow> analisis \<Rightarrow> analisis" where
  "Analisis_set b a =
     a\<lparr>numero_analisis :=
         (case b_numero_analisis b of None \<Rightarrow> numero_analisis a | Some s \<Rightarrow> Some s),
       fecha_analisis := (case b_fecha_analisis b of None \<Rightarrow> fecha_analisis a | Some d \<Rightarrow> d),
       tipo_analisis := (case b_tipo_analisis b of None \<Rightarrow> tipo_analisis a | Some s \<Rightarrow> Some s),
       laboratorio := (case b_laboratorio b of None \<Rightarrow> laboratorio a | Some s \<Rightarrow> Some s),
       tecnico_responsable :=
         (case b_tecnico_responsable b of None \<Rightarrow> tecnico_responsable a | Some s \<Rightarrow> Some s),
       observaciones := (case b_observaciones b of None \<Rightarrow> observaciones a | Some s \<Rightarrow> s),
       estado := (case b_estado b of None \<Rightarrow> estado a | Some s \<Rightarrow> s),
       a_createdAt := (case b_a_createdAt b of None \<Rightarrow> a_createdAt a | Some d \<Rightarrow> d),
       a_updatedAt := (case b_a_updatedAt b of None \<Rightarrow> a_updatedAt a | Some d \<Rightarrow> d)\<rparr>"

text \<open>\<^verbatim>\<open>Analisis.findByIdAndUpdate(id, update, { new: true, runValidators: true })\<close>.\<close>

definition Analisis_findByIdAndUpdate ::
  "analisis list \<Rightarrow> id_param \<Rightarrow> analisis_body \<Rightarrow> js_error + (analisis option \<times> analisis list)"
  where
  "Analisis_findByIdAndUpdate db p b =
     (case p of
        NotAnId s \<Rightarrow> Inl (ObjectIdCastError ''Analisis'' s)
      | IdOf i \<Rightarrow>
          (case Analisis_update_errors b of
             e # es \<Rightarrow> Inl (UpdateValidationError (e # es))
           | [] \<Rightarrow>
               (case find (\<lambda>a. a_id a = i) db of
                  None \<Rightarrow> Inr (None, db)
                | Some a \<Rightarrow>
                    let doc = Analisis_set b a
                    in if numero_analisis doc \<noteq> numero_analisis a
                            \<and> numero_analisis doc \<in> set (map numero_analisis db)
                       then Inl (DuplicateKeyError ''numero_analisis''
                                  (case numero_analisis doc of None \<Rightarrow> [] | Some s \<Rightarrow> s))
                       else Inr (Some doc, update_first (\<lambda>d. a_id d = i) (\<lambda>d. doc) db))))"

text \<open>\<^verbatim>\<open>Analisis.findByIdAndDelete(id)\<close>: the removed document, or \<^verbatim>\<open>null\<close>.\<close>

definition Analisis_findByIdAndDelete ::
  "analisis list \<Rightarrow> id_param \<Rightarrow> js_error + (analisis option \<times> analisis list)" where
  "Analisis_findByIdAndDelete db p =
     (case p of
        NotAnId s \<Rightarrow> Inl (ObjectIdCastError ''Analisis'' s)
      | IdOf i \<Rightarrow>
          Inr (find (\<lambda>a. a_id a = i) db, remove_first (\<lambda>a. a_id a = i) db))"

section \<open>Responses\<close>

text \<open>
  \<^verbatim>\<open>res.status(s).json({...})\<close>: the status and the keys of the envelope, \<open>None\<close> for a key
  the handler does not write. \<^verbatim>\<open>details\<close> is a string (\<^verbatim>\<open>error.message\<close>) or an array
  of strings (the messages of a validation error).
\<close>

datatype details = Text string | Texts "string list"

datatype payload =
    UserDoc user
  | UserDocs "user list"
  | Profile public_profile
  | AnalisisDoc analisis
  | AnalisisDocs "analisis list"

record response =
  status :: nat
  success :: bool
  message :: "string option"
  error :: "string option"
  details :: "details option"
  count :: "nat option"
  data :: "payload option"

definition reply :: "nat \<Rightarrow> bool \<Rightarrow> response" where
  "reply s ok =
     \<lparr>status = s, success = ok, message = None, error = None, details = None, count = None,
      data = None\<rparr>"

text \<open>The two readings of \<^verbatim>\<open>Date.now\<close> of a create: by the defaults, then by the hook.\<close>

record clock =
  on_new :: date
  on_save :: date

text \<open>The collection after a write that may have been rejected.\<close>

definition written :: "'e + ('r \<times> 'db) \<Rightarrow> 'db \<Rightarrow> 'db" where
  "written r db = (case r of Inl e \<Rightarrow> db | Inr (x, db') \<Rightarrow> db')"

definition result :: "'e + ('r \<times> 'db) \<Rightarrow> 'e + 'r" where
  "result r = (case r of Inl e \<Rightarrow> Inl e | Inr (x, db') \<Rightarrow> Inr x)"

section \<open>The routes of the user resource (\<^verbatim>\<open>routes/users.js\<close>)\<close>

text \<open>
  Each route is its \<^verbatim>\<open>try\<close>/\<^verbatim>\<open>catch\<close> as a function of the outcome of the awaited call
  (\<open>Inl\<close> the error thrown, \<open>Inr\<close> the value), and the route itself: that function on the
  call the handler makes.
\<close>

definition users_get_respond :: "js_error + user list \<Rightarrow> response" where
  "users_get_respond r =
     (case r of
        Inr users \<Rightarrow> (reply 200 True)\<lparr>count := Some (length users), data := Some (UserDocs users)\<rparr>
      | Inl e \<Rightarrow>
          (reply 500 False)
            \<lparr>error := Some ''Error al obtener usuarios'', details := Some (Text (err_message e))\<rparr>)"

definition users_get :: "user list \<Rightarrow> response" where
  "users_get db = users_get_respond (User_find_active db)"

definition users_get_id_respond :: "js_error + user option \<Rightarrow> response" where
  "users_get_id_respond r =
     (case r of
        Inr None \<Rightarrow> (reply 404 False)\<lparr>error := Some ''Usuario no encontrado''\<rparr>
      | Inr (Some u) \<Rightarrow> (reply 200 True)\<lparr>data := Some (UserDoc u)\<rparr>
      | Inl e \<Rightarrow>
          (reply 500 False)
            \<lparr>error := Some ''Error al obtener el usuario'', details := Some (Text (err_message e))\<rparr>)"

definition users_get_id :: "user list \<Rightarrow> id_param \<Rightarrow> response" where
  "users_get_id db p = users_get_id_respond (User_findById db p)"

definition users_post_respond :: "js_error + user \<Rightarrow> response" where
  "users_post_respond r =
     (case r of
        Inr savedUser \<Rightarrow>
          (reply 201 True)
            \<lparr>message := Some ''Usuario creado exitosamente'',
             data := Some (Profile (getPublicProfile savedUser))\<rparr>
      | Inl e \<Rightarrow>
          if err_code e = Some 11000
          then (reply 400 False)\<lparr>error := Some (''El email ya est'' @ a_acute @ '' registrado'')\<rparr>
          else if err_name e = ''ValidationError''
          then (reply 400 False)
                 \<lparr>error := Some (''Errores de validaci'' @ o_acute @ ''n''),
                  details := Some (Texts (map snd (err_errors e)))\<rparr>
          else (reply 500 False)
                 \<lparr>error := Some ''Error al crear el usuario'',
                  details := Some (Text (err_message e))\<rparr>)"

definition users_post :: "clock \<Rightarrow> user list \<Rightarrow> user_body \<Rightarrow> response \<times> user list" where
  "users_post clk db body =
     (let user = User_new (on_new clk) (newObjectId (map u_id db)) body;
          r = User_save (on_save clk) db user
      in (users_post_respond (result r), written r db))"

definition users_put_respond :: "js_error + user option \<Rightarrow> response" where
  "users_put_respond r =
     (case r of
        Inr None \<Rightarrow> (reply 404 False)\<lparr>error := Some ''Usuario no encontrado''\<rparr>
      | Inr (Some u) \<Rightarrow>
          (reply 200 True)
            \<lparr>message := Some ''Usuario actualizado exitosamente'', data := Some (UserDoc u)\<rparr>
      | Inl e \<Rightarrow>
          if err_name e = ''ValidationError''
          then (reply 400 False)
                 \<lparr>error := Some (''Errores de validaci'' @ o_acute @ ''n''),
                  details := Some (Texts (map snd (err_errors e)))\<rparr>
          else (reply 500 False)
                 \<lparr>error := Some ''Error al actualizar el usuario'',
                  details := Some (Text (err_message e))\<rparr>)"

definition users_put :: "user list \<Rightarrow> id_param \<Rightarrow> user_body \<Rightarrow> response \<times> user list" where
  "users_put db p body =
     (let r = User_findByIdAndUpdate True db p body
      in (users_put_respond (map_sum id (map_option select_no_v) (result r)), written r db))"

definition users_delete_respond :: "js_error + user option \<Rightarrow> response" where
  "users_delete_respond r =
     (case r of
        Inr None \<Rightarrow> (reply 404 False)\<lparr>error := Some ''Usuario no encontrado''\<rparr>
      | Inr (Some u) \<Rightarrow> (reply 200 True)\<lparr>message := Some ''Usuario eliminado exitosamente''\<rparr>
      | Inl e \<Rightarrow>
          (reply 500 False)
            \<lparr>error := Some ''Error al eliminar el usuario'',
             details := Some (Text (err_message e))\<rparr>)"

definition users_delete :: "user list \<Rightarrow> id_param \<Rightarrow> response \<times> user list" where
  "users_delete db p =
     (let r = User_findByIdAndUpdate False db p isActive_false
      in (users_delete_respond (result r), written r db))"

section \<open>The routes of the analysis resource\<close>

text \<open>
  \<^verbatim>\<open>Analisis.find(filter).select('-__v')\<close>, with the filter the handler builds: a query
  parameter enters it when it is truthy, that is, present and not empty.
\<close>

definition truthy :: "string option \<Rightarrow> bool" where
  "truthy q = (q \<noteq> None \<and> q \<noteq> Some [])"

definition Analisis_find ::
  "string option \<Rightarrow> string option \<Rightarrow> analisis list \<Rightarrow> js_error + analisis list" where
  "Analisis_find q_estado q_laboratorio db =
     Inr (map a_select_no_v
       (filter (\<lambda>a. (if truthy q_estado then Some (estado a) = q_estado else True)
                  \<and> (if truthy q_laboratorio then laboratorio a = q_laboratorio else True)) db))"

definition analisis_get_respond :: "js_error + analisis list \<Rightarrow> response" where
  "analisis_get_respond r =
     (case r of
        Inr docs \<Rightarrow> (reply 200 True)\<lparr>count := Some (length docs), data := Some (AnalisisDocs docs)\<rparr>
      | Inl e \<Rightarrow>
          (reply 500 False)
            \<lparr>error := Some (''Error al obtener an'' @ a_acute @ ''lisis''),
             details := Some (Text (err_message e))\<rparr>)"

definition analisis_get :: "analisis list \<Rightarrow> string option \<Rightarrow> string option \<Rightarrow> response" where
  "analisis_get db q_estado q_laboratorio =
     analisis_get_respond (Analisis_find q_estado q_laboratorio db)"

definition analisis_get_id_respond :: "js_error + analisis option \<Rightarrow> response" where
  "analisis_get_id_respond r =
     (case r of
        Inr None \<Rightarrow> (reply 404 False)\<lparr>error := Some (''An'' @ a_acute @ ''lisis no encontrado'')\<rparr>
      | Inr (Some a) \<Rightarrow> (reply 200 True)\<lparr>data := Some (AnalisisDoc a)\<rparr>
      | Inl e \<Rightarrow>
          (reply 500 False)
            \<lparr>error := Some (''Error al obtener el an'' @ a_acute @ ''lisis''),
             details := Some (Text (err_message e))\<rparr>)"

definition analisis_get_id :: "analisis list \<Rightarrow> id_param \<Rightarrow> response" where
  "analisis_get_id db p = analisis_get_id_respond (Analisis_findById db p)"

definition analisis_post_respond :: "js_error + analisis \<Rightarrow> response" where
  "analisis_post_respond r =
     (case r of
        Inr savedAnalisis \<Rightarrow>
          (reply 201 True)
            \<lparr>message := Some (''An'' @ a_acute @ ''lisis creado exitosamente''),
             data := Some (AnalisisDoc savedAnalisis)\<rparr>
      | Inl e \<Rightarrow>
          if err_code e = Some 11000
          then (reply 400 False)
                 \<lparr>error := Some (''El n'' @ u_acute @ ''mero de an'' @ a_acute @ ''lisis ya existe'')\<rparr>
          else if err_name e = ''ValidationError''
          then (reply 400 False)
                 \<lparr>error := Some (''Errores de validaci'' @ o_acute @ ''n''),
                  details := Some (Texts (map snd (err_errors e)))\<rparr>
          else (reply 500 False)
                 \<lparr>error := Some (''Error al crear el an'' @ a_acute @ ''lisis''),
                  details := Some (Text (err_message e))\<rparr>)"

definition analisis_post ::
  "clock \<Rightarrow> analisis list \<Rightarrow> analisis_body \<Rightarrow> response \<times> analisis list" where
  "analisis_post clk db body =
     (let analisis = Analisis_new (on_new clk) (newObjectId (map a_id db)) body;
          r = Analisis_save (on_save clk) db analisis
      in (analisis_post_respond (result r), written r db))"

definition analisis_put_respond :: "js_error + analisis option \<Rightarrow> response" where
  "analisis_put_respond r =
     (case r of
        Inr None \<Rightarrow> (reply 404 False)\<lparr>error := Some (''An'' @ a_acute @ ''lisis no encontrado'')\<rparr>
      | Inr (Some a) \<Rightarrow>
          (reply 200 True)
            \<lparr>message := Some (''An'' @ a_acute @ ''lisis actualizado exitosamente''),
             data := Some (AnalisisDoc a)\<rparr>
      | Inl e \<Rightarrow>
          (reply 500 False)
            \<lparr>error := Some (''Error al actualizar el an'' @ a_acute @ ''lisis''),
             details := Some (Text (err_message e))\<rparr>)"

definition analisis_put ::
  "analisis list \<Rightarrow> id_param \<Rightarrow> analisis_body \<Rightarrow> response \<times> analisis list" where
  "analisis_put db p body =
     (let r = Analisis_findByIdAndUpdate db p body
      in (analisis_put_respond (map_sum id (map_option a_select_no_v) (result r)), written r db))"

definition analisis_delete_respond :: "js_error + analisis option \<Rightarrow> response" where
  "analisis_delete_respond r =
     (case r of
        Inr None \<Rightarrow> (reply 404 False)\<lparr>error := Some (''An'' @ a_acute @ ''lisis no encontrado'')\<rparr>
      | Inr (Some a) \<Rightarrow>
          (reply 200 True)\<lparr>message := Some (''An'' @ a_acute @ ''lisis eliminado exitosamente'')\<rparr>
      | Inl e \<Rightarrow>
          (reply 500 False)
            \<lparr>error := Some (''Error al eliminar el an'' @ a_acute @ ''lisis''),
             details := Some (Text (err_message e))\<rparr>)"

definition analisis_delete :: "analisis list \<Rightarrow> id_param \<Rightarrow> response \<times> analisis list" where
  "analisis_delete db p =
     (let r = Analisis_findByIdAndDelete db p
      in (analisis_delete_respond (result r), written r db))"

section \<open>Requests and documents used as examples\<close>

text \<open>The update \<^verbatim>\<open>{ isActive: true }\<close>.\<close>

definition isActive_true :: user_body where
  "isActive_true = no_fields\<lparr>b_isActive := Some True\<rparr>"

text \<open>The body \<^verbatim>\<open>{ name: "Ana", email: "ana@x.com", age: 30 }\<close> and the document it creates.\<close>

definition ana_body :: user_body where
  "ana_body = no_fields\<lparr>b_name := Some ''Ana'', b_email := Some ''ana@x.com'', b_age := Some 30\<rparr>"

definition first_create :: clock where
  "first_create = \<lparr>on_new = 1000, on_save = 1001\<rparr>"

definition ana :: user where
  "ana =
     \<lparr>u_id = 1, name = Some ''Ana'', email = Some ''ana@x.com'', age = Some 30, isActive = True,
      createdAt = 1000, updatedAt = 1001, u_v = Some 0\<rparr>"

text \<open>A user that was soft-deleted.\<close>

definition luis :: user where
  "luis =
     \<lparr>u_id = 2, name = Some ''Luis'', email = Some ''luis@x.com'', age = None, isActive = False,
      createdAt = 2000, updatedAt = 2001, u_v = Some 0\<rparr>"

definition no_a_fields :: analisis_body where
  "no_a_fields =
     \<lparr>b_numero_analisis = None, b_fecha_analisis = None, b_tipo_analisis = None,
      b_laboratorio = None, b_tecnico_responsable = None, b_observaciones = None,
      b_estado = None, b_a_createdAt = None, b_a_updatedAt = None\<rparr>"

definition hemograma_body :: analisis_body where
  "hemograma_body =
     no_a_fields
       \<lparr>b_numero_analisis := Some ''A-001'', b_tipo_analisis := Some ''hemograma'',
        b_laboratorio := Some ''Central'', b_tecnico_responsable := Some ''Luis''\<rparr>"

definition hemograma :: analisis where
  "hemograma =
     \<lparr>a_id = 1, numero_analisis = Some ''A-001'', fecha_analisis = 1000,
      tipo_analisis = Some ''hemograma'', laboratorio = Some ''Central'',
      tecnico_responsable = Some ''Luis'', observaciones = [], estado = ''pendiente'',
      a_createdAt = 1000, a_updatedAt = 1001, a_v = Some 0\<rparr>"

definition glucemia :: analisis where
  "glucemia =
     \<lparr>a_id = 2, numero_analisis = Some ''A-002'', fecha_analisis = 3000,
      tipo_analisis = Some ''glucemia'', laboratorio = Some ''Norte'',
      tecnico_responsable = Some ''Eva'', observaciones = [], estado = ''completado'',
      a_createdAt = 3000, a_updatedAt = 3001, a_v = Some 0\<rparr>"

text \<open>The updates \<^verbatim>\<open>{ name: "Ana Maria" }\<close> and \<^verbatim>\<open>{ estado: "completado" }\<close>.\<close>

definition rename_body :: user_body where
  "rename_body = no_fields\<lparr>b_name := Some ''Ana Maria''\<rparr>"

definition estado_body :: analisis_body where
  "estado_body = no_a_fields\<lparr>b_estado := Some ''completado''\<rparr>"

text \<open>
  Bodies that fail validation: \<^verbatim>\<open>{ email: "ana", age: 130 }\<close> for a user and
  \<^verbatim>\<open>{ numero_analisis: "A-009", estado: "listo" }\<close> for an analysis.
\<close>

definition bad_user_body :: user_body where
  "bad_user_body = no_fields\<lparr>b_email := Some ''ana'', b_age := Some 130\<rparr>"

definition bad_analisis_body :: analisis_body where
  "bad_analisis_body =
     no_a_fields\<lparr>b_numero_analisis := Some ''A-009'', b_estado := Some ''listo''\<rparr>"

text \<open>The messages that the bodies of the examples must be answered with, in any order.\<close>

definition bad_user_messages :: "string set" where
  "bad_user_messages =
     {''El nombre es obligatorio'', ''Por favor ingresa un email v'' @ a_acute @ ''lido'',
      ''La edad no puede ser mayor a 120''}"

definition bad_analisis_messages :: "string set" where
  "bad_analisis_messages =
     {''Path `tipo_analisis` is required.'', ''Path `laboratorio` is required.'',
      ''Path `tecnico_responsable` is required.'',
      ''`listo` is not a valid enum value for path `estado`.''}"

text \<open>
  Updates that the store or the validators refuse: \<^verbatim>\<open>{ numero_analisis: "A-001" }\<close> on
  another analysis than the one that has this number, and \<^verbatim>\<open>{ age: 150 }\<close>.
\<close>

definition dup_numero_body :: analisis_body where
  "dup_numero_body = no_a_fields\<lparr>b_numero_analisis := Some ''A-001''\<rparr>"


section \<open>The document a create stores\<close>

text \<open>
  The document that a successful POST inserts: the new document after the hook, with the
  version key the insert sets.
\<close>

definition created_user :: "clock \<Rightarrow> user list \<Rightarrow> user_body \<Rightarrow> user" where
  "created_user clk db body =
     (User_new (on_new clk) (newObjectId (map u_id db)) body)
       \<lparr>updatedAt := on_save clk, u_v := Some 0\<rparr>"

definition created_analisis :: "clock \<Rightarrow> analisis list \<Rightarrow> analisis_body \<Rightarrow> analisis" where
  "created_analisis clk db body =
     (Analisis_new (on_new clk) (newObjectId (map a_id db)) body)
       \<lparr>a_updatedAt := on_save clk, a_v := Some 0\<rparr>"

section \<open>Facts about the setters and the collections\<close>

text \<open>The two setters of the email commute, so the order in which they run is immaterial.\<close>

lemma isSpace_lowerChar: "isSpace (lowerChar c) = isSpace c"
  by (auto simp: isSpace_def lowerChar_def Let_def)

lemma trim_toLowerCase: "trim (toLowerCase s) = toLowerCase (trim s)"
proof -
  have d: "dropWhile isSpace (map lowerChar xs) = map lowerChar (dropWhile isSpace xs)" for xs
    by (simp add: dropWhile_map comp_def isSpace_lowerChar)
  show ?thesis
    by (simp add: trim_def toLowerCase_def rev_map d)
qed


lemma fold_max_upper: "x \<in> set ids \<Longrightarrow> x \<le> fold max ids (a::nat)"
proof (induction ids arbitrary: a)
  case Nil
  then show ?case by simp
next
  case (Cons y ys)
  have mono: "a \<le> fold max ys a" for a :: nat
    by (induction ys arbitrary: a) (auto intro: order_trans [OF max.cobounded2])
  show ?case
  proof (cases "x = y")
    case True
    have "y \<le> max y a" by simp
    also have "\<dots> \<le> fold max ys (max y a)" by (rule mono)
    finally show ?thesis using True by simp
  next
    case False
    with Cons.prems have "x \<in> set ys" by simp
    then show ?thesis using Cons.IH by simp
  qed
qed

lemma newObjectId_fresh: "newObjectId ids \<notin> set ids"
proof
  assume "newObjectId ids \<in> set ids"
  then have "newObjectId ids \<le> fold max ids 0" by (rule fold_max_upper)
  then show False by (simp add: newObjectId_def)
qed

lemma find_Some_id: "find (\<lambda>d. f d = i) xs = Some x \<Longrightarrow> f x = i \<and> x \<in> set xs"
  by (induction xs) (auto split: if_splits)

lemma find_None_iff_id: "(find (\<lambda>d. f d = i) xs = None) = (i \<notin> f ` set xs)"
  by (induction xs) auto

lemma find_update_first_same:
  "find P xs = Some x \<Longrightarrow> P y \<Longrightarrow> find P (update_first P (\<lambda>d. y) xs) = Some y"
  by (induction xs) (auto split: if_splits)

lemma update_first_member:
  "find P xs = Some x \<Longrightarrow> y \<in> set (update_first P (\<lambda>d. y) xs)"
  by (induction xs) (auto split: if_splits)

lemma update_first_distinct_others:
  "distinct (map f xs) \<Longrightarrow> f y = i \<Longrightarrow> z \<in> set (update_first (\<lambda>d. f d = i) (\<lambda>d. y) xs) \<Longrightarrow>
   f z = i \<Longrightarrow> z = y"
  by (induction xs) (auto split: if_splits)

lemma remove_first_None: "find P xs = None \<Longrightarrow> remove_first P xs = xs"
  by (induction xs) (auto split: if_splits)

lemma find_remove_first_distinct:
  "distinct (map f xs) \<Longrightarrow> find (\<lambda>d. f d = i) (remove_first (\<lambda>d. f d = i) xs) = None"
  by (induction xs) (auto simp: find_None_iff_id)

lemma update_first_twice:
  "P y \<Longrightarrow> update_first P (\<lambda>d. y) (update_first P (\<lambda>d. y) xs) = update_first P (\<lambda>d. y) xs"
  by (induction xs) auto

lemma nonempty_if_member: "m \<in> set (map snd es) \<Longrightarrow> \<exists>e es'. es = e # es'"
  by (cases es) auto

lemma find_append_fresh:
  "i \<notin> f ` set xs \<Longrightarrow> f y = i \<Longrightarrow> find (\<lambda>d. f d = i) (xs @ [y]) = Some y"
  by (induction xs) auto



section \<open>What each route answers\<close>

lemma users_get_data:
  "users_get db =
     (reply 200 True)
       \<lparr>count := Some (length (filter isActive db)),
        data := Some (UserDocs (map select_no_v (filter isActive db)))\<rparr>"
  by (simp add: users_get_def users_get_respond_def User_find_active_def)

lemma users_get_id_found:
  "find (\<lambda>u. u_id u = i) db = Some u \<Longrightarrow>
   users_get_id db (IdOf i) = (reply 200 True)\<lparr>data := Some (UserDoc (select_no_v u))\<rparr>"
  by (simp add: users_get_id_def User_findById_def users_get_id_respond_def)

lemma User_set_isActive_false: "User_set isActive_false u = u\<lparr>isActive := False\<rparr>"
  by (simp add: User_set_def isActive_false_def no_fields_def)

lemma users_delete_found:
  assumes "find (\<lambda>u. u_id u = i) db = Some u"
  shows "users_delete db (IdOf i) =
    ((reply 200 True)\<lparr>message := Some ''Usuario eliminado exitosamente''\<rparr>,
     update_first (\<lambda>d. u_id d = i) (\<lambda>d. u\<lparr>isActive := False\<rparr>) db)"
  using assms
  by (simp add: users_delete_def User_findByIdAndUpdate_def User_set_isActive_false
      users_delete_respond_def result_def written_def Let_def)

lemma users_delete_missing:
  assumes "find (\<lambda>u. u_id u = i) db = None"
  shows "users_delete db (IdOf i) =
    ((reply 404 False)\<lparr>error := Some ''Usuario no encontrado''\<rparr>, db)"
  using assms
  by (simp add: users_delete_def User_findByIdAndUpdate_def users_delete_respond_def
      result_def written_def)

lemma users_delete_malformed:
  "users_delete db (NotAnId s) =
     ((reply 500 False)
        \<lparr>error := Some ''Error al eliminar el usuario'',
         details := Some (Text (err_message (ObjectIdCastError ''User'' s)))\<rparr>, db)"
  by (simp add: users_delete_def User_findByIdAndUpdate_def users_delete_respond_def
      result_def written_def)

lemma users_put_isActive_true:
  assumes "find (\<lambda>u. u_id u = i) db = Some u"
  shows "users_put db (IdOf i) isActive_true =
    ((reply 200 True)
       \<lparr>message := Some ''Usuario actualizado exitosamente'',
        data := Some (UserDoc (select_no_v (u\<lparr>isActive := True\<rparr>)))\<rparr>,
     update_first (\<lambda>d. u_id d = i) (\<lambda>d. u\<lparr>isActive := True\<rparr>) db)"
  using assms
  by (simp add: users_put_def User_findByIdAndUpdate_def User_update_errors_def
      validate_age_def path_error_def User_set_def isActive_true_def no_fields_def
      users_put_respond_def result_def written_def Let_def)

lemma analisis_get_id_missing:
  "find (\<lambda>a. a_id a = i) db = None \<Longrightarrow>
   analisis_get_id db (IdOf i) =
     (reply 404 False)\<lparr>error := Some (''An'' @ a_acute @ ''lisis no encontrado'')\<rparr>"
  by (simp add: analisis_get_id_def Analisis_findById_def analisis_get_id_respond_def)

lemma analisis_delete_found:
  "find (\<lambda>a. a_id a = i) db = Some a \<Longrightarrow>
   analisis_delete db (IdOf i) =
     ((reply 200 True)\<lparr>message := Some (''An'' @ a_acute @ ''lisis eliminado exitosamente'')\<rparr>,
      remove_first (\<lambda>a. a_id a = i) db)"
  by (simp add: analisis_delete_def Analisis_findByIdAndDelete_def analisis_delete_respond_def
      result_def written_def)

lemma analisis_delete_missing:
  "find (\<lambda>a. a_id a = i) db = None \<Longrightarrow>
   analisis_delete db (IdOf i) =
     ((reply 404 False)\<lparr>error := Some (''An'' @ a_acute @ ''lisis no encontrado'')\<rparr>, db)"
  by (simp add: analisis_delete_def Analisis_findByIdAndDelete_def analisis_delete_respond_def
      result_def written_def remove_first_None)

lemma set_if_unset_if_set: "set (if_unset v es) \<union> set (if_set v es) = set es"
  by (auto simp: if_unset_def if_set_def)

lemma empty_iff_set: "(xs = []) = (set xs = {})"
  by simp

lemma if_unset_if_set_empty: "(if_unset v es = [] \<and> if_set v es = []) = (es = [])"
  by (simp add: if_unset_def if_set_def)

lemma set_User_validate_new:
  "set (User_validate (User_new t i b)) =
     set (path_error ''name'' (validate_name (map_option set_name (b_name b))))
     \<union> set (path_error ''email'' (validate_email (map_option set_email (b_email b))))
     \<union> set (path_error ''age'' (validate_age (b_age b)))"
  using set_if_unset_if_set [of "map_option set_name (b_name b)"
      "path_error ''name'' (validate_name (map_option set_name (b_name b)))"]
    set_if_unset_if_set [of "map_option set_email (b_email b)"
      "path_error ''email'' (validate_email (map_option set_email (b_email b)))"]
  by (auto simp: User_validate_def User_new_def)

lemma path_error_message: "(m \<in> snd ` set (path_error p r)) = (r = Some m)"
  by (cases r) (auto simp: path_error_def)

lemma path_error_empty: "(path_error p r = []) = (r = None)"
  by (cases r) (auto simp: path_error_def)

lemma User_validate_new_messages:
  "(m \<in> set (map snd (User_validate (User_new t i b)))) =
     (validate_name (map_option set_name (b_name b)) = Some m
      \<or> validate_email (map_option set_email (b_email b)) = Some m
      \<or> validate_age (b_age b) = Some m)"
  by (simp add: set_User_validate_new image_Un path_error_message)

lemma User_validate_new_passes:
  "(User_validate (User_new t i b) = []) =
     (validate_name (map_option set_name (b_name b)) = None
      \<and> validate_email (map_option set_email (b_email b)) = None
      \<and> validate_age (b_age b) = None)"
  by (subst empty_iff_set) (simp add: set_User_validate_new path_error_empty)

lemma users_post_invalid:
  assumes "User_validate (User_new (on_new clk) (newObjectId (map u_id db)) body) = e # es"
  shows "users_post clk db body =
    ((reply 400 False)
       \<lparr>error := Some (''Errores de validaci'' @ o_acute @ ''n''),
        details := Some (Texts (map snd (e # es)))\<rparr>, db)"
  using assms
  by (simp add: users_post_def User_save_def users_post_respond_def result_def written_def
      DocumentValidationError_def Let_def)

lemma users_post_duplicate:
  assumes "User_validate (User_new (on_new clk) (newObjectId (map u_id db)) body) = []"
    and "map_option set_email (b_email body) \<in> set (map email db)"
  shows "users_post clk db body =
    ((reply 400 False)\<lparr>error := Some (''El email ya est'' @ a_acute @ '' registrado'')\<rparr>, db)"
  using assms
  by (simp add: users_post_def User_save_def users_post_respond_def result_def written_def
      DuplicateKeyError_def Let_def userSchema_pre_save_def User_new_def)

lemma users_post_created:
  assumes "User_validate (User_new (on_new clk) (newObjectId (map u_id db)) body) = []"
    and "map_option set_email (b_email body) \<notin> set (map email db)"
  shows "users_post clk db body =
    ((reply 201 True)
       \<lparr>message := Some ''Usuario creado exitosamente'',
        data := Some (Profile (getPublicProfile (created_user clk db body)))\<rparr>,
     db @ [created_user clk db body])"
  using assms
  by (simp add: users_post_def User_save_def users_post_respond_def result_def written_def
      Let_def userSchema_pre_save_def User_new_def created_user_def)

lemma set_Analisis_validate_new:
  "set (Analisis_validate (Analisis_new t i b)) =
     set (path_error ''numero_analisis''
            (validate_required ''numero_analisis'' (b_numero_analisis b)))
     \<union> set (path_error ''tipo_analisis'' (validate_required ''tipo_analisis'' (b_tipo_analisis b)))
     \<union> set (path_error ''laboratorio'' (validate_required ''laboratorio'' (b_laboratorio b)))
     \<union> set (path_error ''tecnico_responsable''
              (validate_required ''tecnico_responsable'' (b_tecnico_responsable b)))
     \<union> set (path_error ''estado''
              (validate_estado (case b_estado b of None \<Rightarrow> ''pendiente'' | Some s \<Rightarrow> s)))"
  using set_if_unset_if_set [of "b_numero_analisis b"
      "required_error ''numero_analisis'' (b_numero_analisis b)"]
    set_if_unset_if_set [of "b_tipo_analisis b"
      "required_error ''tipo_analisis'' (b_tipo_analisis b)"]
    set_if_unset_if_set [of "b_laboratorio b"
      "required_error ''laboratorio'' (b_laboratorio b)"]
    set_if_unset_if_set [of "b_tecnico_responsable b"
      "required_error ''tecnico_responsable'' (b_tecnico_responsable b)"]
  by (auto simp: Analisis_validate_def Analisis_new_def required_error_def)

lemma Analisis_validate_new_messages:
  "(m \<in> set (map snd (Analisis_validate (Analisis_new t i b)))) =
     (validate_required ''numero_analisis'' (b_numero_analisis b) = Some m
      \<or> validate_required ''tipo_analisis'' (b_tipo_analisis b) = Some m
      \<or> validate_required ''laboratorio'' (b_laboratorio b) = Some m
      \<or> validate_required ''tecnico_responsable'' (b_tecnico_responsable b) = Some m
      \<or> validate_estado (case b_estado b of None \<Rightarrow> ''pendiente'' | Some s \<Rightarrow> s) = Some m)"
  by (simp add: set_Analisis_validate_new image_Un path_error_message)

lemma Analisis_validate_new_passes:
  "(Analisis_validate (Analisis_new t i b) = []) =
     (validate_required ''numero_analisis'' (b_numero_analisis b) = None
      \<and> validate_required ''tipo_analisis'' (b_tipo_analisis b) = None
      \<and> validate_required ''laboratorio'' (b_laboratorio b) = None
      \<and> validate_required ''tecnico_responsable'' (b_tecnico_responsable b) = None
      \<and> validate_estado (case b_estado b of None \<Rightarrow> ''pendiente'' | Some s \<Rightarrow> s) = None)"
  by (subst empty_iff_set) (simp add: set_Analisis_validate_new path_error_empty)

lemma analisis_post_invalid:
  assumes "Analisis_validate (Analisis_new (on_new clk) (newObjectId (map a_id db)) body) = e # es"
  shows "analisis_post clk db body =
    ((reply 400 False)
       \<lparr>error := Some (''Errores de validaci'' @ o_acute @ ''n''),
        details := Some (Texts (map snd (e # es)))\<rparr>, db)"
  using assms
  by (simp add: analisis_post_def Analisis_save_def analisis_post_respond_def result_def
      written_def DocumentValidationError_def Let_def)

lemma analisis_post_duplicate:
  assumes "Analisis_validate (Analisis_new (on_new clk) (newObjectId (map a_id db)) body) = []"
    and "b_numero_analisis body \<in> set (map numero_analisis db)"
  shows "analisis_post clk db body =
    ((reply 400 False)
       \<lparr>error := Some (''El n'' @ u_acute @ ''mero de an'' @ a_acute @ ''lisis ya existe'')\<rparr>, db)"
  using assms
  by (simp add: analisis_post_def Analisis_save_def analisis_post_respond_def result_def
      written_def DuplicateKeyError_def Let_def analisisSchema_pre_save_def Analisis_new_def)

lemma analisis_post_created:
  assumes "Analisis_validate (Analisis_new (on_new clk) (newObjectId (map a_id db)) body) = []"
    and "b_numero_analisis body \<notin> set (map numero_analisis db)"
  shows "analisis_post clk db body =
    ((reply 201 True)
       \<lparr>message := Some (''An'' @ a_acute @ ''lisis creado exitosamente''),
        data := Some (AnalisisDoc (created_analisis clk db body))\<rparr>,
     db @ [created_analisis clk db body])"
  using assms
  by (simp add: analisis_post_def Analisis_save_def analisis_post_respond_def result_def
      written_def Let_def analisisSchema_pre_save_def Analisis_new_def created_analisis_def)

lemma created_user_id: "u_id (created_user clk db body) = newObjectId (map u_id db)"
  by (simp add: created_user_def User_new_def)

lemma created_analisis_id: "a_id (created_analisis clk db body) = newObjectId (map a_id db)"
  by (simp add: created_analisis_def Analisis_new_def)

lemma users_get_id_created:
  "users_get_id (db @ [created_user clk db body]) (IdOf (u_id (created_user clk db body)))
     = (reply 200 True)\<lparr>data := Some (UserDoc (select_no_v (created_user clk db body)))\<rparr>"
proof -
  have "newObjectId (map u_id db) \<notin> u_id ` set db"
    using newObjectId_fresh [of "map u_id db"] by simp
  then have "find (\<lambda>u. u_id u = newObjectId (map u_id db)) (db @ [created_user clk db body])
      = Some (created_user clk db body)"
    using created_user_id by (rule find_append_fresh)
  then show ?thesis by (simp add: created_user_id users_get_id_found)
qed

lemma analisis_get_id_found:
  "find (\<lambda>a. a_id a = i) db = Some a \<Longrightarrow>
   analisis_get_id db (IdOf i) = (reply 200 True)\<lparr>data := Some (AnalisisDoc (a_select_no_v a))\<rparr>"
  by (simp add: analisis_get_id_def Analisis_findById_def analisis_get_id_respond_def)

lemma analisis_get_id_created:
  "analisis_get_id (db @ [created_analisis clk db body])
       (IdOf (a_id (created_analisis clk db body)))
     = (reply 200 True)
         \<lparr>data := Some (AnalisisDoc (a_select_no_v (created_analisis clk db body)))\<rparr>"
proof -
  have "newObjectId (map a_id db) \<notin> a_id ` set db"
    using newObjectId_fresh [of "map a_id db"] by simp
  then have "find (\<lambda>a. a_id a = newObjectId (map a_id db)) (db @ [created_analisis clk db body])
      = Some (created_analisis clk db body)"
    using created_analisis_id by (rule find_append_fresh)
  then show ?thesis by (simp add: created_analisis_id analisis_get_id_found)
qed

lemma ana_body_valid:
  "validate_name (map_option set_name (b_name ana_body)) = None
   \<and> validate_email (map_option set_email (b_email ana_body)) = None
   \<and> validate_age (b_age ana_body) = None
   \<and> map_option set_email (b_email ana_body) \<notin> set (map email [luis])"
  by code_simp

lemma hemograma_body_valid:
  "validate_required ''numero_analisis'' (b_numero_analisis hemograma_body) = None
   \<and> validate_required ''tipo_analisis'' (b_tipo_analisis hemograma_body) = None
   \<and> validate_required ''laboratorio'' (b_laboratorio hemograma_body) = None
   \<and> validate_required ''tecnico_responsable'' (b_tecnico_responsable hemograma_body) = None
   \<and> validate_estado (case b_estado hemograma_body of None \<Rightarrow> ''pendiente'' | Some s \<Rightarrow> s) = None
   \<and> b_numero_analisis hemograma_body \<notin> set (map numero_analisis [glucemia])"
  by code_simp

lemma written_rejected: "r = Inl e \<Longrightarrow> written r db = db"
  by (simp add: written_def)

lemma analisis_put_rejected:
  "Analisis_findByIdAndUpdate db p body = Inl e \<Longrightarrow>
   analisis_put db p body =
     ((reply 500 False)
        \<lparr>error := Some (''Error al actualizar el an'' @ a_acute @ ''lisis''),
         details := Some (Text (err_message e))\<rparr>, db)"
  by (simp add: analisis_put_def analisis_put_respond_def result_def written_def)

lemma Analisis_update_duplicate:
  assumes "find (\<lambda>a. a_id a = i) db = Some a" and "Analisis_update_errors body = []"
    and "b_numero_analisis body = Some n" and "numero_analisis a \<noteq> Some n"
    and "Some n \<in> set (map numero_analisis db)"
  shows "Analisis_findByIdAndUpdate db (IdOf i) body = Inl (DuplicateKeyError ''numero_analisis'' n)"
  using assms by (auto simp: Analisis_findByIdAndUpdate_def Analisis_set_def Let_def)

lemma ana_body_taken: 
  "validate_name (map_option set_name (b_name ana_body)) = None
      \<and> validate_email (map_option set_email (b_email ana_body)) = None
      \<and> validate_age (b_age ana_body) = None
      \<and> map_option set_email (b_email ana_body) \<in> set (map email [ana])"
  by code_simp

lemma hemograma_body_taken:
  "validate_required ''numero_analisis'' (b_numero_analisis hemograma_body) = None
   \<and> validate_required ''tipo_analisis'' (b_tipo_analisis hemograma_body) = None
   \<and> validate_required ''laboratorio'' (b_laboratorio hemograma_body) = None
   \<and> validate_required ''tecnico_responsable'' (b_tecnico_responsable hemograma_body) = None
   \<and> validate_estado (case b_estado hemograma_body of None \<Rightarrow> ''pendiente'' | Some s \<Rightarrow> s) = None
   \<and> b_numero_analisis hemograma_body \<in> set (map numero_analisis [hemograma, glucemia])"
  by code_simp

lemma dup_numero_update:
  "find (\<lambda>a. a_id a = 2) [hemograma, glucemia] = Some glucemia
   \<and> Analisis_update_errors dup_numero_body = []
   \<and> b_numero_analisis dup_numero_body = Some ''A-001''
   \<and> numero_analisis glucemia \<noteq> Some ''A-001''
   \<and> Some ''A-001'' \<in> set (map numero_analisis [hemograma, glucemia])"
  by code_simp



















section \<open>Properties of the specification\<close>

text \<open>
  C4. Whatever the collection of users holds, the list route answers 200 with a data array
  in which every record has its active flag true: a record whose flag is false is never
  included.
\<close>

theorem users_get_active_only:
  "\<exists>us. users_get db = (reply 200 True)\<lparr>count := Some (length us), data := Some (UserDocs us)\<rparr>
     \<and> (\<forall>u\<in>set us. isActive u)"
  by (rule exI [of _ "map select_no_v (filter isActive db)"])
     (simp add: users_get_def users_get_respond_def User_find_active_def select_no_v_def)

theorem users_get_active_only_witness:
  "\<exists>us. data (users_get [ana, luis]) = Some (UserDocs us) \<and> us = [select_no_v ana]
     \<and> isActive (select_no_v ana)"
proof -
  obtain us where
    r: "users_get [ana, luis]
          = (reply 200 True)\<lparr>count := Some (length us), data := Some (UserDocs us)\<rparr>"
    and a: "\<forall>u\<in>set us. isActive u"
    using users_get_active_only [of "[ana, luis]"] by blast
  have "data (users_get [ana, luis]) = Some (UserDocs [select_no_v ana])"
    by (simp add: users_get_data ana_def luis_def)
  with r have "us = [select_no_v ana]" by simp
  with r a show ?thesis by auto
qed

text \<open>
  C3. Deleting a user by the id of a stored record answers 200 and leaves the record in the
  collection with its active flag false; the list route on the collection after the delete
  does not include a record with that id, and the get-by-id route still answers 200 with
  the record. Deleting an analysis by the id of a stored record answers 200, and get-by-id
  for that id then answers 404. The collections hold one record per id.
\<close>

theorem delete_soft_and_hard:
  assumes "distinct (map u_id db)" and "find (\<lambda>u. u_id u = i) db = Some u"
    and "distinct (map a_id adb)" and "find (\<lambda>a. a_id a = j) adb = Some a"
  shows "status (fst (users_delete db (IdOf i))) = 200
    \<and> find (\<lambda>u. u_id u = i) (snd (users_delete db (IdOf i))) = Some (u\<lparr>isActive := False\<rparr>)
    \<and> (\<exists>us. data (users_get (snd (users_delete db (IdOf i)))) = Some (UserDocs us)
          \<and> i \<notin> u_id ` set us)
    \<and> users_get_id (snd (users_delete db (IdOf i))) (IdOf i)
        = (reply 200 True)\<lparr>data := Some (UserDoc (select_no_v (u\<lparr>isActive := False\<rparr>)))\<rparr>
    \<and> status (fst (analisis_delete adb (IdOf j))) = 200
    \<and> analisis_get_id (snd (analisis_delete adb (IdOf j))) (IdOf j)
        = (reply 404 False)\<lparr>error := Some (''An'' @ a_acute @ ''lisis no encontrado'')\<rparr>"
proof -
  let ?doc = "u\<lparr>isActive := False\<rparr>"
  let ?db' = "update_first (\<lambda>d. u_id d = i) (\<lambda>d. ?doc) db"
  have id: "u_id ?doc = i" using assms(2) by (auto dest: find_Some_id)
  have del: "users_delete db (IdOf i) =
      ((reply 200 True)\<lparr>message := Some ''Usuario eliminado exitosamente''\<rparr>, ?db')"
    using assms(2) by (rule users_delete_found)
  have found: "find (\<lambda>u. u_id u = i) ?db' = Some ?doc"
    using assms(2) id by (rule find_update_first_same)
  have gone: "i \<notin> u_id ` set (map select_no_v (filter isActive ?db'))"
  proof
    assume "i \<in> u_id ` set (map select_no_v (filter isActive ?db'))"
    then obtain z where z: "z \<in> set ?db'" "isActive z" "u_id z = i"
      by (auto simp: select_no_v_def)
    from assms(1) id z(1) z(3) have "z = ?doc" by (rule update_first_distinct_others)
    with z(2) show False by simp
  qed
  have adel: "analisis_delete adb (IdOf j) =
     ((reply 200 True)\<lparr>message := Some (''An'' @ a_acute @ ''lisis eliminado exitosamente'')\<rparr>,
      remove_first (\<lambda>a. a_id a = j) adb)"
    using assms(4) by (rule analisis_delete_found)
  have agone: "find (\<lambda>a. a_id a = j) (remove_first (\<lambda>a. a_id a = j) adb) = None"
    using assms(3) by (rule find_remove_first_distinct)
  show ?thesis
    using gone found by (simp add: del adel users_get_data users_get_id_found [OF found]
        analisis_get_id_missing [OF agone] reply_def)
qed

theorem delete_soft_and_hard_witness:
  "distinct (map u_id [ana, luis]) \<and> find (\<lambda>u. u_id u = 1) [ana, luis] = Some ana
   \<and> distinct (map a_id [hemograma, glucemia])
   \<and> find (\<lambda>a. a_id a = 2) [hemograma, glucemia] = Some glucemia
   \<and> snd (users_delete [ana, luis] (IdOf 1)) = [ana\<lparr>isActive := False\<rparr>, luis]
   \<and> data (users_get (snd (users_delete [ana, luis] (IdOf 1)))) = Some (UserDocs [])
   \<and> status (users_get_id (snd (users_delete [ana, luis] (IdOf 1))) (IdOf 1)) = 200
   \<and> snd (analisis_delete [hemograma, glucemia] (IdOf 2)) = [hemograma]
   \<and> status (analisis_get_id (snd (analisis_delete [hemograma, glucemia] (IdOf 2))) (IdOf 2))
       = 404"
proof -
  have h1: "distinct (map u_id [ana, luis])" by (simp add: ana_def luis_def)
  have h2: "find (\<lambda>u. u_id u = 1) [ana, luis] = Some ana" by (simp add: ana_def luis_def)
  have h3: "distinct (map a_id [hemograma, glucemia])" by (simp add: hemograma_def glucemia_def)
  have h4: "find (\<lambda>a. a_id a = 2) [hemograma, glucemia] = Some glucemia"
    by (simp add: hemograma_def glucemia_def)
  have s1: "snd (users_delete [ana, luis] (IdOf 1)) = [ana\<lparr>isActive := False\<rparr>, luis]"
    by (simp del: One_nat_def add: users_delete_found [OF h2]) (simp add: ana_def)
  have s2: "snd (analisis_delete [hemograma, glucemia] (IdOf 2)) = [hemograma]"
    by (simp add: analisis_delete_found [OF h4]) (simp add: hemograma_def glucemia_def)
  have s3: "data (users_get [ana\<lparr>isActive := False\<rparr>, luis]) = Some (UserDocs [])"
    by (simp add: users_get_data luis_def)
  from delete_soft_and_hard [OF h1 h2 h3 h4] h1 h2 h3 h4 s1 s2 s3 show ?thesis
    by (simp del: One_nat_def add: reply_def)
qed

text \<open>
  C9. For a stored user whose active flag is false, a PUT on its id with the body
  \<^verbatim>\<open>{ "isActive": true }\<close> answers 200 with the record, leaves the record in the collection
  with its active flag true, and the list route on the collection after the update includes
  it.
\<close>

theorem soft_delete_reversible:
  assumes "find (\<lambda>u. u_id u = i) db = Some u" and "\<not> isActive u"
  shows "fst (users_put db (IdOf i) isActive_true)
      = (reply 200 True)
          \<lparr>message := Some ''Usuario actualizado exitosamente'',
           data := Some (UserDoc (select_no_v (u\<lparr>isActive := True\<rparr>)))\<rparr>
    \<and> find (\<lambda>u. u_id u = i) (snd (users_put db (IdOf i) isActive_true))
        = Some (u\<lparr>isActive := True\<rparr>)
    \<and> (\<exists>us. data (users_get (snd (users_put db (IdOf i) isActive_true))) = Some (UserDocs us)
          \<and> select_no_v (u\<lparr>isActive := True\<rparr>) \<in> set us)"
proof -
  let ?doc = "u\<lparr>isActive := True\<rparr>"
  let ?db' = "update_first (\<lambda>d. u_id d = i) (\<lambda>d. ?doc) db"
  have id: "u_id ?doc = i" using assms(1) by (auto dest: find_Some_id)
  have found: "find (\<lambda>u. u_id u = i) ?db' = Some ?doc"
    using assms(1) id by (rule find_update_first_same)
  have "?doc \<in> set ?db'" using assms(1) by (rule update_first_member)
  then have listed: "select_no_v ?doc \<in> set (map select_no_v (filter isActive ?db'))"
    by simp
  show ?thesis
    using found listed by (simp add: users_put_isActive_true [OF assms(1)] users_get_data)
qed

theorem soft_delete_reversible_witness:
  "find (\<lambda>u. u_id u = 2) [ana, luis] = Some luis \<and> \<not> isActive luis
   \<and> status (fst (users_put [ana, luis] (IdOf 2) isActive_true)) = 200
   \<and> map isActive (snd (users_put [ana, luis] (IdOf 2) isActive_true)) = [True, True]"
proof -
  have f: "find (\<lambda>u. u_id u = 2) [ana, luis] = Some luis" by (simp add: ana_def luis_def)
  have a: "\<not> isActive luis" by (simp add: luis_def)
  have "snd (users_put [ana, luis] (IdOf 2) isActive_true) = [ana, luis\<lparr>isActive := True\<rparr>]"
    by (simp add: users_put_isActive_true [OF f]) (simp add: ana_def luis_def)
  then show ?thesis
    using soft_delete_reversible [OF f a] f a by (simp add: reply_def ana_def)
qed

text \<open>
  C10, as the code has it. The user delete route answers 404 exactly when the \<^verbatim>\<open>:id\<close>
  segment is an ObjectId that no stored record has; whether the record is active plays no
  part: on the id of a stored record it answers 200, a second delete answers the same and
  leaves the same collection, and a record that was inactive stays as it was. A second delete
  of the same analysis id answers 404.
\<close>

theorem delete_not_found:
  "(status (fst (users_delete db p)) = 404 \<longleftrightarrow> (\<exists>i. p = IdOf i \<and> i \<notin> u_id ` set db))
   \<and> (find (\<lambda>u. u_id u = i) db = Some u \<longrightarrow>
        status (fst (users_delete db (IdOf i))) = 200
        \<and> users_delete (snd (users_delete db (IdOf i))) (IdOf i) = users_delete db (IdOf i)
        \<and> (\<not> isActive u \<longrightarrow>
             find (\<lambda>u. u_id u = i) (snd (users_delete db (IdOf i))) = Some u))
   \<and> (distinct (map a_id adb) \<and> find (\<lambda>a. a_id a = j) adb = Some a \<longrightarrow>
        status (fst (analisis_delete adb (IdOf j))) = 200
        \<and> status (fst (analisis_delete (snd (analisis_delete adb (IdOf j))) (IdOf j))) = 404)"
proof (intro conjI impI)
  show "status (fst (users_delete db p)) = 404 \<longleftrightarrow> (\<exists>i. p = IdOf i \<and> i \<notin> u_id ` set db)"
  proof (cases p)
    case (IdOf k)
    show ?thesis
    proof (cases "find (\<lambda>u. u_id u = k) db")
      case None
      then show ?thesis using IdOf
        by (simp add: users_delete_missing reply_def) (simp add: find_None_iff_id)
    next
      case (Some v)
      then have "k \<in> u_id ` set db" by (auto dest: find_Some_id)
      then show ?thesis using IdOf Some by (simp add: users_delete_found reply_def)
    qed
  next
    case (NotAnId s)
    then show ?thesis by (simp add: users_delete_malformed reply_def)
  qed
next
  assume h: "find (\<lambda>u. u_id u = i) db = Some u"
  then show "status (fst (users_delete db (IdOf i))) = 200"
    by (simp add: users_delete_found reply_def)
  let ?doc = "u\<lparr>isActive := False\<rparr>"
  let ?db' = "update_first (\<lambda>d. u_id d = i) (\<lambda>d. ?doc) db"
  from h have id: "u_id ?doc = i" by (auto dest: find_Some_id)
  have found: "find (\<lambda>u. u_id u = i) ?db' = Some ?doc"
    using h id by (rule find_update_first_same)
  have "users_delete ?db' (IdOf i) =
     ((reply 200 True)\<lparr>message := Some ''Usuario eliminado exitosamente''\<rparr>,
       update_first (\<lambda>d. u_id d = i) (\<lambda>d. ?doc\<lparr>isActive := False\<rparr>) ?db')"
    using found by (rule users_delete_found)
  then show "users_delete (snd (users_delete db (IdOf i))) (IdOf i) = users_delete db (IdOf i)"
    using id by (simp add: users_delete_found [OF h] update_first_twice)
  assume "\<not> isActive u"
  then have "?doc = u" by simp
  with found show "find (\<lambda>u. u_id u = i) (snd (users_delete db (IdOf i))) = Some u"
    by (simp add: users_delete_found [OF h])
next
  assume h: "distinct (map a_id adb) \<and> find (\<lambda>a. a_id a = j) adb = Some a"
  then have gone: "find (\<lambda>a. a_id a = j) (remove_first (\<lambda>a. a_id a = j) adb) = None"
    by (auto intro: find_remove_first_distinct)
  from h show "status (fst (analisis_delete adb (IdOf j))) = 200"
    by (simp add: analisis_delete_found reply_def)
  from h gone
  show "status (fst (analisis_delete (snd (analisis_delete adb (IdOf j))) (IdOf j))) = 404"
    by (simp add: analisis_delete_found analisis_delete_missing reply_def)
qed

theorem delete_not_found_witness:
  "find (\<lambda>u. u_id u = 2) [ana, luis] = Some luis \<and> \<not> isActive luis
   \<and> status (fst (users_delete [ana, luis] (IdOf 2))) = 200
   \<and> snd (users_delete [ana, luis] (IdOf 2)) = [ana, luis]
   \<and> status (fst (users_delete [ana, luis] (IdOf 3))) = 404
   \<and> status (fst (users_delete [ana, luis] (NotAnId ''abc''))) \<noteq> 404
   \<and> distinct (map a_id [hemograma, glucemia])
   \<and> find (\<lambda>a. a_id a = 2) [hemograma, glucemia] = Some glucemia
   \<and> status (fst (analisis_delete [hemograma, glucemia] (IdOf 2))) = 200
   \<and> status (fst (analisis_delete (snd (analisis_delete [hemograma, glucemia] (IdOf 2)))
        (IdOf 2))) = 404"
proof -
  have f: "find (\<lambda>u. u_id u = 2) [ana, luis] = Some luis" by (simp add: ana_def luis_def)
  have a: "\<not> isActive luis" by (simp add: luis_def)
  have n: "3 \<notin> u_id ` set [ana, luis]" by (simp add: ana_def luis_def)
  have h3: "distinct (map a_id [hemograma, glucemia])" by (simp add: hemograma_def glucemia_def)
  have h4: "find (\<lambda>a. a_id a = 2) [hemograma, glucemia] = Some glucemia"
    by (simp add: hemograma_def glucemia_def)
  have s: "snd (users_delete [ana, luis] (IdOf 2)) = [ana, luis]"
    by (simp add: users_delete_found [OF f]) (simp add: ana_def luis_def)
  note t = delete_not_found [of "[ana, luis]" _ 2 luis "[hemograma, glucemia]" 2 glucemia]
  from t [of "IdOf 3"] n have m: "status (fst (users_delete [ana, luis] (IdOf 3))) = 404" by simp
  from t [of "NotAnId ''abc''"]
  have c: "status (fst (users_delete [ana, luis] (NotAnId ''abc''))) \<noteq> 404" by simp
  from t [of "IdOf 3"] f a h3 h4 s m c show ?thesis by simp
qed

text \<open>
  C10 as stated fails on a \<^verbatim>\<open>:id\<close> segment that is not an ObjectId: the collection is
  empty, so no record with the given id exists, and \<^verbatim>\<open>DELETE /api/users/abc\<close> answers
  500, not 404.
\<close>

theorem delete_malformed_id_is_500:
  "set ([] :: user list) = {} \<and> status (fst (users_delete [] (NotAnId ''abc''))) = 500"
  by (simp add: users_delete_malformed reply_def)

text \<open>
  C1, at the input where the code departs from it. The POST stores Ana's record with
  \<^verbatim>\<open>updatedAt\<close> set by the hook to the time of the save. A later PUT that renames her
  answers 200 and writes the new name, and the stored \<^verbatim>\<open>updatedAt\<close> is still the time of the
  create; the same holds for a PUT on an analysis.
\<close>

theorem put_keeps_updatedAt:
  "users_post first_create [] ana_body
     = ((reply 201 True)
          \<lparr>message := Some ''Usuario creado exitosamente'',
           data := Some (Profile (getPublicProfile ana))\<rparr>, [ana])
   \<and> updatedAt ana = on_save first_create
   \<and> status (fst (users_put [ana] (IdOf 1) rename_body)) = 200
   \<and> snd (users_put [ana] (IdOf 1) rename_body) = [ana\<lparr>name := Some ''Ana Maria''\<rparr>]
   \<and> map updatedAt (snd (users_put [ana] (IdOf 1) rename_body)) = [updatedAt ana]
   \<and> status (fst (analisis_put [hemograma] (IdOf 1) estado_body)) = 200
   \<and> snd (analisis_put [hemograma] (IdOf 1) estado_body)
       = [hemograma\<lparr>estado := ''completado''\<rparr>]
   \<and> map a_updatedAt (snd (analisis_put [hemograma] (IdOf 1) estado_body))
       = [a_updatedAt hemograma]"
  by code_simp

lemma bad_user_details:
  "\<exists>ms. details (fst (users_post first_create [ana] bad_user_body)) = Some (Texts ms)
     \<and> set ms = bad_user_messages"
proof -
  have "User_validate (User_new (on_new first_create) (newObjectId (map u_id [ana]))
      bad_user_body) \<noteq> []"
    by code_simp
  then obtain e es where es: "User_validate (User_new (on_new first_create)
      (newObjectId (map u_id [ana])) bad_user_body) = e # es"
    by (auto simp: neq_Nil_conv)
  have "set (map snd (User_validate (User_new (on_new first_create)
      (newObjectId (map u_id [ana])) bad_user_body))) = bad_user_messages"
    by (simp add: set_User_validate_new image_Un bad_user_messages_def)
       (auto simp: bad_user_body_def no_fields_def path_error_def validate_name_def
          validate_age_def validate_email_def set_email_def trim_def toLowerCase_def
          lowerChar_def isSpace_def email_regexp_def dotted_words_def Some1_def Opt_def
          isWord_def)
  then show ?thesis
    by (simp add: users_post_invalid [OF es] es [symmetric])
qed

lemma bad_analisis_details:
  "\<exists>ms. details (fst (analisis_post first_create [hemograma] bad_analisis_body))
       = Some (Texts ms)
     \<and> set ms = bad_analisis_messages"
proof -
  have "Analisis_validate (Analisis_new (on_new first_create) (newObjectId (map a_id [hemograma]))
      bad_analisis_body) \<noteq> []"
    by code_simp
  then obtain e es where es: "Analisis_validate (Analisis_new (on_new first_create)
      (newObjectId (map a_id [hemograma])) bad_analisis_body) = e # es"
    by (auto simp: neq_Nil_conv)
  have "set (map snd (Analisis_validate (Analisis_new (on_new first_create)
      (newObjectId (map a_id [hemograma])) bad_analisis_body))) = bad_analisis_messages"
    by (simp add: set_Analisis_validate_new image_Un bad_analisis_messages_def)
       (auto simp: bad_analisis_body_def no_a_fields_def path_error_def validate_required_def
          validate_estado_def estado_enum_def enum_message_def)
  then show ?thesis
    by (simp add: analisis_post_invalid [OF es] es [symmetric])
qed

text \<open>
  C6. A create request of either resource whose body violates a constraint of a field of
  the schema is answered with 400, the collection is left as it was, and the details array
  holds the message of every violated field: whenever the validators of a field give the
  message \<open>m\<close> on the value of the body, \<open>m\<close> is in the array.
\<close>

theorem create_invalid_lists_messages:
  "(validate_name (map_option set_name (b_name body)) = Some m
      \<or> validate_email (map_option set_email (b_email body)) = Some m
      \<or> validate_age (b_age body) = Some m
    \<longrightarrow> (\<exists>ms. users_post clk db body
                = ((reply 400 False)
                     \<lparr>error := Some (''Errores de validaci'' @ o_acute @ ''n''),
                      details := Some (Texts ms)\<rparr>, db)
              \<and> m \<in> set ms))
   \<and> (validate_required ''numero_analisis'' (b_numero_analisis abody) = Some m
      \<or> validate_required ''tipo_analisis'' (b_tipo_analisis abody) = Some m
      \<or> validate_required ''laboratorio'' (b_laboratorio abody) = Some m
      \<or> validate_required ''tecnico_responsable'' (b_tecnico_responsable abody) = Some m
      \<or> validate_estado (case b_estado abody of None \<Rightarrow> ''pendiente'' | Some s \<Rightarrow> s) = Some m
    \<longrightarrow> (\<exists>ms. analisis_post clk adb abody
                = ((reply 400 False)
                     \<lparr>error := Some (''Errores de validaci'' @ o_acute @ ''n''),
                      details := Some (Texts ms)\<rparr>, adb)
              \<and> m \<in> set ms))"
proof (intro conjI impI)
  let ?es = "User_validate (User_new (on_new clk) (newObjectId (map u_id db)) body)"
  assume "validate_name (map_option set_name (b_name body)) = Some m
      \<or> validate_email (map_option set_email (b_email body)) = Some m
      \<or> validate_age (b_age body) = Some m"
  then have m: "m \<in> set (map snd ?es)" by (simp only: User_validate_new_messages)
  then obtain e es' where es: "?es = e # es'" by (blast dest: nonempty_if_member)
  from m show "\<exists>ms. users_post clk db body
                = ((reply 400 False)
                     \<lparr>error := Some (''Errores de validaci'' @ o_acute @ ''n''),
                      details := Some (Texts ms)\<rparr>, db)
              \<and> m \<in> set ms"
    unfolding users_post_invalid [OF es] es by blast
next
  let ?es = "Analisis_validate (Analisis_new (on_new clk) (newObjectId (map a_id adb)) abody)"
  assume "validate_required ''numero_analisis'' (b_numero_analisis abody) = Some m
      \<or> validate_required ''tipo_analisis'' (b_tipo_analisis abody) = Some m
      \<or> validate_required ''laboratorio'' (b_laboratorio abody) = Some m
      \<or> validate_required ''tecnico_responsable'' (b_tecnico_responsable abody) = Some m
      \<or> validate_estado (case b_estado abody of None \<Rightarrow> ''pendiente'' | Some s \<Rightarrow> s) = Some m"
  then have m: "m \<in> set (map snd ?es)" by (simp only: Analisis_validate_new_messages)
  then obtain e es' where es: "?es = e # es'" by (blast dest: nonempty_if_member)
  from m show "\<exists>ms. analisis_post clk adb abody
                = ((reply 400 False)
                     \<lparr>error := Some (''Errores de validaci'' @ o_acute @ ''n''),
                      details := Some (Texts ms)\<rparr>, adb)
              \<and> m \<in> set ms"
    unfolding analisis_post_invalid [OF es] es by blast
qed

theorem create_invalid_lists_messages_witness:
  "validate_name (map_option set_name (b_name bad_user_body)) = Some ''El nombre es obligatorio''
   \<and> ''El nombre es obligatorio'' \<in> bad_user_messages
   \<and> status (fst (users_post first_create [ana] bad_user_body)) = 400
   \<and> (\<exists>ms. details (fst (users_post first_create [ana] bad_user_body)) = Some (Texts ms)
         \<and> set ms = bad_user_messages)
   \<and> snd (users_post first_create [ana] bad_user_body) = [ana]
   \<and> validate_required ''laboratorio'' (b_laboratorio bad_analisis_body)
     = Some ''Path `laboratorio` is required.''
   \<and> ''Path `laboratorio` is required.'' \<in> bad_analisis_messages
   \<and> status (fst (analisis_post first_create [hemograma] bad_analisis_body)) = 400
   \<and> (\<exists>ms. details (fst (analisis_post first_create [hemograma] bad_analisis_body))
           = Some (Texts ms)
         \<and> set ms = bad_analisis_messages)
   \<and> snd (analisis_post first_create [hemograma] bad_analisis_body) = [hemograma]"
proof -
  have n: "validate_name (map_option set_name (b_name bad_user_body))
      = Some ''El nombre es obligatorio''"
    by (simp add: bad_user_body_def no_fields_def validate_name_def)
  have l: "validate_required ''laboratorio'' (b_laboratorio bad_analisis_body)
     = Some ''Path `laboratorio` is required.''"
    by (simp add: bad_analisis_body_def no_a_fields_def validate_required_def)
  have nm: "''El nombre es obligatorio'' \<in> bad_user_messages"
    by (simp add: bad_user_messages_def)
  have lm: "''Path `laboratorio` is required.'' \<in> bad_analisis_messages"
    by (simp add: bad_analisis_messages_def)
  note t = create_invalid_lists_messages [where body = bad_user_body
      and m = "''El nombre es obligatorio''" and clk = first_create and db = "[ana]"]
  note t' = create_invalid_lists_messages [where abody = bad_analisis_body
      and m = "''Path `laboratorio` is required.''" and clk = first_create
      and adb = "[hemograma]"]
  from t n obtain ms where
    u: "users_post first_create [ana] bad_user_body
          = ((reply 400 False)\<lparr>error := Some (''Errores de validaci'' @ o_acute @ ''n''),
               details := Some (Texts ms)\<rparr>, [ana])"
    by blast
  from t' l obtain ms' where
    a: "analisis_post first_create [hemograma] bad_analisis_body
          = ((reply 400 False)\<lparr>error := Some (''Errores de validaci'' @ o_acute @ ''n''),
               details := Some (Texts ms')\<rparr>, [hemograma])"
    by blast
  have su: "status (fst (users_post first_create [ana] bad_user_body)) = 400"
    and du: "snd (users_post first_create [ana] bad_user_body) = [ana]"
    by (simp_all add: u reply_def)
  have sa: "status (fst (analisis_post first_create [hemograma] bad_analisis_body)) = 400"
    and da: "snd (analisis_post first_create [hemograma] bad_analisis_body) = [hemograma]"
    by (simp_all add: a reply_def)
  from n nm l lm su du sa da bad_user_details bad_analisis_details show ?thesis
    by (intro conjI)
qed

text \<open>
  C8, as the code has it. A create whose body passes validation and whose unique key no
  stored record has is answered with 201 and appends the record. For a user the response
  carries the public profile of the stored record (id, name, email, age, active flag,
  creation time), and get-by-id on that id answers 200 with the stored record, which has
  that very profile and, beyond it, the update time. For an analysis the response carries
  the stored record with its version key, and get-by-id on its id answers 200 with the same
  record without the version key.
\<close>

theorem create_then_get:
  "(validate_name (map_option set_name (b_name body)) = None
      \<and> validate_email (map_option set_email (b_email body)) = None
      \<and> validate_age (b_age body) = None
      \<and> map_option set_email (b_email body) \<notin> set (map email db)
    \<longrightarrow> (\<exists>doc. users_post clk db body
                 = ((reply 201 True)
                      \<lparr>message := Some ''Usuario creado exitosamente'',
                       data := Some (Profile (getPublicProfile doc))\<rparr>, db @ [doc])
               \<and> users_get_id (snd (users_post clk db body)) (IdOf (p_id (getPublicProfile doc)))
                 = (reply 200 True)\<lparr>data := Some (UserDoc (select_no_v doc))\<rparr>
               \<and> getPublicProfile (select_no_v doc) = getPublicProfile doc))
   \<and> (validate_required ''numero_analisis'' (b_numero_analisis abody) = None
      \<and> validate_required ''tipo_analisis'' (b_tipo_analisis abody) = None
      \<and> validate_required ''laboratorio'' (b_laboratorio abody) = None
      \<and> validate_required ''tecnico_responsable'' (b_tecnico_responsable abody) = None
      \<and> validate_estado (case b_estado abody of None \<Rightarrow> ''pendiente'' | Some s \<Rightarrow> s) = None
      \<and> b_numero_analisis abody \<notin> set (map numero_analisis adb)
    \<longrightarrow> (\<exists>doc. analisis_post clk adb abody
                 = ((reply 201 True)
                      \<lparr>message := Some (''An'' @ a_acute @ ''lisis creado exitosamente''),
                       data := Some (AnalisisDoc doc)\<rparr>, adb @ [doc])
               \<and> analisis_get_id (snd (analisis_post clk adb abody)) (IdOf (a_id doc))
                 = (reply 200 True)\<lparr>data := Some (AnalisisDoc (doc\<lparr>a_v := None\<rparr>))\<rparr>))"
proof (intro conjI impI)
  assume h: "validate_name (map_option set_name (b_name body)) = None
      \<and> validate_email (map_option set_email (b_email body)) = None
      \<and> validate_age (b_age body) = None
      \<and> map_option set_email (b_email body) \<notin> set (map email db)"
  then have v: "User_validate (User_new (on_new clk) (newObjectId (map u_id db)) body) = []"
    by (simp only: User_validate_new_passes)
  from h have fresh: "map_option set_email (b_email body) \<notin> set (map email db)" by simp
  note post = users_post_created [OF v fresh]
  show "\<exists>doc. users_post clk db body
                 = ((reply 201 True)
                      \<lparr>message := Some ''Usuario creado exitosamente'',
                       data := Some (Profile (getPublicProfile doc))\<rparr>, db @ [doc])
               \<and> users_get_id (snd (users_post clk db body)) (IdOf (p_id (getPublicProfile doc)))
                 = (reply 200 True)\<lparr>data := Some (UserDoc (select_no_v doc))\<rparr>
               \<and> getPublicProfile (select_no_v doc) = getPublicProfile doc"
    by (rule exI [of _ "created_user clk db body"])
       (simp add: post users_get_id_created [simplified] getPublicProfile_def select_no_v_def)
next
  assume h: "validate_required ''numero_analisis'' (b_numero_analisis abody) = None
      \<and> validate_required ''tipo_analisis'' (b_tipo_analisis abody) = None
      \<and> validate_required ''laboratorio'' (b_laboratorio abody) = None
      \<and> validate_required ''tecnico_responsable'' (b_tecnico_responsable abody) = None
      \<and> validate_estado (case b_estado abody of None \<Rightarrow> ''pendiente'' | Some s \<Rightarrow> s) = None
      \<and> b_numero_analisis abody \<notin> set (map numero_analisis adb)"
  then have v: "Analisis_validate (Analisis_new (on_new clk) (newObjectId (map a_id adb)) abody) = []"
    by (simp only: Analisis_validate_new_passes)
  from h have fresh: "b_numero_analisis abody \<notin> set (map numero_analisis adb)" by simp
  note post = analisis_post_created [OF v fresh]
  show "\<exists>doc. analisis_post clk adb abody
                 = ((reply 201 True)
                      \<lparr>message := Some (''An'' @ a_acute @ ''lisis creado exitosamente''),
                       data := Some (AnalisisDoc doc)\<rparr>, adb @ [doc])
               \<and> analisis_get_id (snd (analisis_post clk adb abody)) (IdOf (a_id doc))
                 = (reply 200 True)\<lparr>data := Some (AnalisisDoc (doc\<lparr>a_v := None\<rparr>))\<rparr>"
    by (rule exI [of _ "created_analisis clk adb abody"])
       (simp add: post analisis_get_id_created [simplified] a_select_no_v_def)
qed

theorem create_then_get_witness:
  "validate_name (map_option set_name (b_name ana_body)) = None
   \<and> validate_email (map_option set_email (b_email ana_body)) = None
   \<and> validate_age (b_age ana_body) = None
   \<and> map_option set_email (b_email ana_body) \<notin> set (map email [luis])
   \<and> status (fst (users_post first_create [luis] ana_body)) = 201
   \<and> length (snd (users_post first_create [luis] ana_body)) = 2
   \<and> validate_required ''numero_analisis'' (b_numero_analisis hemograma_body) = None
   \<and> validate_required ''tipo_analisis'' (b_tipo_analisis hemograma_body) = None
   \<and> validate_required ''laboratorio'' (b_laboratorio hemograma_body) = None
   \<and> validate_required ''tecnico_responsable'' (b_tecnico_responsable hemograma_body) = None
   \<and> validate_estado (case b_estado hemograma_body of None \<Rightarrow> ''pendiente'' | Some s \<Rightarrow> s) = None
   \<and> b_numero_analisis hemograma_body \<notin> set (map numero_analisis [glucemia])
   \<and> status (fst (analisis_post first_create [glucemia] hemograma_body)) = 201
   \<and> length (snd (analisis_post first_create [glucemia] hemograma_body)) = 2"
proof -
  note t = create_then_get [where body = ana_body and db = "[luis]" and clk = first_create
      and abody = hemograma_body and adb = "[glucemia]"]
  from t ana_body_valid obtain doc where
    "users_post first_create [luis] ana_body
       = ((reply 201 True)
            \<lparr>message := Some ''Usuario creado exitosamente'',
             data := Some (Profile (getPublicProfile doc))\<rparr>, [luis] @ [doc])"
    by blast
  then have u: "status (fst (users_post first_create [luis] ana_body)) = 201
      \<and> length (snd (users_post first_create [luis] ana_body)) = 2"
    by (simp add: reply_def)
  from t hemograma_body_valid obtain adoc where
    "analisis_post first_create [glucemia] hemograma_body
       = ((reply 201 True)
            \<lparr>message := Some (''An'' @ a_acute @ ''lisis creado exitosamente''),
             data := Some (AnalisisDoc adoc)\<rparr>, [glucemia] @ [adoc])"
    by blast
  then have a: "status (fst (analisis_post first_create [glucemia] hemograma_body)) = 201
      \<and> length (snd (analisis_post first_create [glucemia] hemograma_body)) = 2"
    by (simp add: reply_def)
  from ana_body_valid hemograma_body_valid u a show ?thesis by blast
qed

text \<open>
  C8 as stated fails: after \<^verbatim>\<open>POST /api/users\<close> with Ana's body on the empty collection
  (201), get-by-id on the id of the response returns the document, not the public profile
  that the create returned; after the POST of an analysis, get-by-id returns the record
  without the version key that the create response has. And a create whose email no stored
  record has is answered with 400 when the body fails validation.
\<close>

theorem create_response_differs:
  "status (fst (users_post first_create [] ana_body)) = 201
   \<and> data (fst (users_post first_create [] ana_body)) = Some (Profile (getPublicProfile ana))
   \<and> data (users_get_id (snd (users_post first_create [] ana_body)) (IdOf 1))
       = Some (UserDoc (select_no_v ana))
   \<and> data (users_get_id (snd (users_post first_create [] ana_body)) (IdOf 1))
       \<noteq> data (fst (users_post first_create [] ana_body))
   \<and> status (fst (analisis_post first_create [] hemograma_body)) = 201
   \<and> data (fst (analisis_post first_create [] hemograma_body)) = Some (AnalisisDoc hemograma)
   \<and> data (analisis_get_id (snd (analisis_post first_create [] hemograma_body)) (IdOf 1))
       = Some (AnalisisDoc (hemograma\<lparr>a_v := None\<rparr>))
   \<and> data (analisis_get_id (snd (analisis_post first_create [] hemograma_body)) (IdOf 1))
       \<noteq> data (fst (analisis_post first_create [] hemograma_body))
   \<and> map_option set_email (b_email bad_user_body) \<notin> set (map email [ana])
   \<and> status (fst (users_post first_create [ana] bad_user_body)) = 400"
  by code_simp

text \<open>
  C2, as the code has it. A create request of either resource whose insert violates the
  unique index (the body passes validation and a stored record has its email, or its
  analysis number) is answered with 400 and the message that names the field, and the
  collection is left as it was; so is any error with code 11000 that the save raises. On
  the update route of the analysis resource a change of the number to one that a stored
  record has is answered with 500, the collection left as it was.
\<close>

theorem duplicate_key_responses:
  "(validate_name (map_option set_name (b_name body)) = None
      \<and> validate_email (map_option set_email (b_email body)) = None
      \<and> validate_age (b_age body) = None
      \<and> map_option set_email (b_email body) \<in> set (map email db)
    \<longrightarrow> users_post clk db body
          = ((reply 400 False)\<lparr>error := Some (''El email ya est'' @ a_acute @ '' registrado'')\<rparr>,
             db))
   \<and> (validate_required ''numero_analisis'' (b_numero_analisis abody) = None
      \<and> validate_required ''tipo_analisis'' (b_tipo_analisis abody) = None
      \<and> validate_required ''laboratorio'' (b_laboratorio abody) = None
      \<and> validate_required ''tecnico_responsable'' (b_tecnico_responsable abody) = None
      \<and> validate_estado (case b_estado abody of None \<Rightarrow> ''pendiente'' | Some s \<Rightarrow> s) = None
      \<and> b_numero_analisis abody \<in> set (map numero_analisis adb)
    \<longrightarrow> analisis_post clk adb abody
          = ((reply 400 False)
               \<lparr>error := Some (''El n'' @ u_acute @ ''mero de an'' @ a_acute @ ''lisis ya existe'')\<rparr>,
             adb))
   \<and> (err_code e = Some 11000
    \<longrightarrow> users_post_respond (Inl e)
          = (reply 400 False)\<lparr>error := Some (''El email ya est'' @ a_acute @ '' registrado'')\<rparr>
        \<and> analisis_post_respond (Inl e)
          = (reply 400 False)
              \<lparr>error := Some (''El n'' @ u_acute @ ''mero de an'' @ a_acute @ ''lisis ya existe'')\<rparr>)
   \<and> (find (\<lambda>a. a_id a = i) adb = Some a \<and> Analisis_update_errors ubody = []
      \<and> b_numero_analisis ubody = Some n \<and> numero_analisis a \<noteq> Some n
      \<and> Some n \<in> set (map numero_analisis adb)
    \<longrightarrow> analisis_put adb (IdOf i) ubody
          = ((reply 500 False)
               \<lparr>error := Some (''Error al actualizar el an'' @ a_acute @ ''lisis''),
                details := Some (Text (err_message (DuplicateKeyError ''numero_analisis'' n)))\<rparr>,
             adb))"
proof (intro conjI impI)
  assume h: "validate_name (map_option set_name (b_name body)) = None
      \<and> validate_email (map_option set_email (b_email body)) = None
      \<and> validate_age (b_age body) = None
      \<and> map_option set_email (b_email body) \<in> set (map email db)"
  then have v: "User_validate (User_new (on_new clk) (newObjectId (map u_id db)) body) = []"
    by (simp only: User_validate_new_passes)
  from h have "map_option set_email (b_email body) \<in> set (map email db)" by simp
  with v show "users_post clk db body
          = ((reply 400 False)\<lparr>error := Some (''El email ya est'' @ a_acute @ '' registrado'')\<rparr>,
             db)"
    by (rule users_post_duplicate)
next
  assume h: "validate_required ''numero_analisis'' (b_numero_analisis abody) = None
      \<and> validate_required ''tipo_analisis'' (b_tipo_analisis abody) = None
      \<and> validate_required ''laboratorio'' (b_laboratorio abody) = None
      \<and> validate_required ''tecnico_responsable'' (b_tecnico_responsable abody) = None
      \<and> validate_estado (case b_estado abody of None \<Rightarrow> ''pendiente'' | Some s \<Rightarrow> s) = None
      \<and> b_numero_analisis abody \<in> set (map numero_analisis adb)"
  then have v: "Analisis_validate (Analisis_new (on_new clk) (newObjectId (map a_id adb)) abody) = []"
    by (simp only: Analisis_validate_new_passes)
  from h have "b_numero_analisis abody \<in> set (map numero_analisis adb)" by simp
  with v show "analisis_post clk adb abody
          = ((reply 400 False)
               \<lparr>error := Some (''El n'' @ u_acute @ ''mero de an'' @ a_acute @ ''lisis ya existe'')\<rparr>,
             adb)"
    by (rule analisis_post_duplicate)
next
  assume "err_code e = Some 11000"
  then show "users_post_respond (Inl e)
          = (reply 400 False)\<lparr>error := Some (''El email ya est'' @ a_acute @ '' registrado'')\<rparr>"
    and "analisis_post_respond (Inl e)
          = (reply 400 False)
              \<lparr>error := Some (''El n'' @ u_acute @ ''mero de an'' @ a_acute @ ''lisis ya existe'')\<rparr>"
    by (simp_all add: users_post_respond_def analisis_post_respond_def)
next
  assume h: "find (\<lambda>a. a_id a = i) adb = Some a \<and> Analisis_update_errors ubody = []
      \<and> b_numero_analisis ubody = Some n \<and> numero_analisis a \<noteq> Some n
      \<and> Some n \<in> set (map numero_analisis adb)"
  then have "Analisis_findByIdAndUpdate adb (IdOf i) ubody
      = Inl (DuplicateKeyError ''numero_analisis'' n)"
    by (intro Analisis_update_duplicate) blast+
  then show "analisis_put adb (IdOf i) ubody
          = ((reply 500 False)
               \<lparr>error := Some (''Error al actualizar el an'' @ a_acute @ ''lisis''),
                details := Some (Text (err_message (DuplicateKeyError ''numero_analisis'' n)))\<rparr>,
             adb)"
    by (rule analisis_put_rejected)
qed

theorem duplicate_key_responses_witness:
  "map_option set_email (b_email ana_body) \<in> set (map email [ana])
   \<and> status (fst (users_post first_create [ana] ana_body)) = 400
   \<and> error (fst (users_post first_create [ana] ana_body))
       = Some (''El email ya est'' @ a_acute @ '' registrado'')
   \<and> snd (users_post first_create [ana] ana_body) = [ana]
   \<and> b_numero_analisis hemograma_body \<in> set (map numero_analisis [hemograma, glucemia])
   \<and> status (fst (analisis_post first_create [hemograma, glucemia] hemograma_body)) = 400
   \<and> error (fst (analisis_post first_create [hemograma, glucemia] hemograma_body))
       = Some (''El n'' @ u_acute @ ''mero de an'' @ a_acute @ ''lisis ya existe'')
   \<and> err_code (DuplicateKeyError ''email'' ''ana@x.com'') = Some 11000
   \<and> status (users_post_respond (Inl (DuplicateKeyError ''email'' ''ana@x.com''))) = 400
   \<and> find (\<lambda>a. a_id a = 2) [hemograma, glucemia] = Some glucemia
   \<and> status (fst (analisis_put [hemograma, glucemia] (IdOf 2) dup_numero_body)) = 500
   \<and> snd (analisis_put [hemograma, glucemia] (IdOf 2) dup_numero_body) = [hemograma, glucemia]"
proof -
  have c: "err_code (DuplicateKeyError ''email'' ''ana@x.com'') = Some 11000"
    by (simp add: DuplicateKeyError_def)
  note t = duplicate_key_responses [where body = ana_body and db = "[ana]" and clk = first_create
      and abody = hemograma_body and adb = "[hemograma, glucemia]"
      and e = "DuplicateKeyError ''email'' ''ana@x.com''" and i = 2 and a = glucemia
      and ubody = dup_numero_body and n = "''A-001''"]
  from t ana_body_taken have u: "users_post first_create [ana] ana_body
          = ((reply 400 False)\<lparr>error := Some (''El email ya est'' @ a_acute @ '' registrado'')\<rparr>,
             [ana])"
    by blast
  from t hemograma_body_taken
  have a: "analisis_post first_create [hemograma, glucemia] hemograma_body
          = ((reply 400 False)
               \<lparr>error := Some (''El n'' @ u_acute @ ''mero de an'' @ a_acute @ ''lisis ya existe'')\<rparr>,
             [hemograma, glucemia])"
    by blast
  from t c have r: "users_post_respond (Inl (DuplicateKeyError ''email'' ''ana@x.com''))
          = (reply 400 False)\<lparr>error := Some (''El email ya est'' @ a_acute @ '' registrado'')\<rparr>"
    by blast
  from t dup_numero_update
  have p: "analisis_put [hemograma, glucemia] (IdOf 2) dup_numero_body
          = ((reply 500 False)
               \<lparr>error := Some (''Error al actualizar el an'' @ a_acute @ ''lisis''),
                details := Some (Text (err_message (DuplicateKeyError ''numero_analisis'' ''A-001'')))\<rparr>,
             [hemograma, glucemia])"
    by blast
  from ana_body_taken hemograma_body_taken dup_numero_update c show ?thesis
    by (simp add: u a r p reply_def)
qed

text \<open>
  C2 as stated fails on an update: \<^verbatim>\<open>PUT /api/analisis/2\<close> with the number of analysis 1
  violates the unique index (error code 11000), and the answer is 500, not 400.
\<close>

theorem analisis_put_duplicate_500:
  "Analisis_findByIdAndUpdate [hemograma, glucemia] (IdOf 2) dup_numero_body
     = Inl (DuplicateKeyError ''numero_analisis'' ''A-001'')
   \<and> err_code (DuplicateKeyError ''numero_analisis'' ''A-001'') = Some 11000
   \<and> status (fst (analisis_put [hemograma, glucemia] (IdOf 2) dup_numero_body)) = 500"
  by code_simp







end
